theory Spec2Isabelle
  imports Main
begin

section \<open>Values, columns, tables, errors\<close>

text \<open>
  The module \<^verbatim>\<open>engines.py\<close> describes the storage engine of a ClickHouse table: an
  engine descriptor is built from column names and SQL expressions, bound to a table by
  \<^verbatim>\<open>_set_parent\<close>, and read by the DDL compiler through \<^verbatim>\<open>name()\<close> and
  \<^verbatim>\<open>get_params()\<close>.

  A column object is an opaque value with a key; a table is a name and its column
  collection \<^verbatim>\<open>table.c\<close>, in declaration order.
\<close>

datatype column = Column (col_key: string) (col_type: string)

datatype table = Table (table_ident: string) (table_c: "column list")

text \<open>
  The exceptions the module can raise: the bare \<^verbatim>\<open>Exception\<close> of
  \<^verbatim>\<open>MergeTree.__init__\<close>, the \<^verbatim>\<open>IndexError\<close> of \<^verbatim>\<open>list(...)[0]\<close>, the
  \<^verbatim>\<open>KeyError\<close> of \<^verbatim>\<open>table.c[name]\<close>, the \<^verbatim>\<open>NotImplementedError\<close> of the
  abstract \<^verbatim>\<open>Engine.get_params\<close>, and the \<^verbatim>\<open>TypeError\<close> of escaping
  \<^verbatim>\<open>None\<close>.
\<close>

datatype error =
    Exception string
  | IndexError
  | KeyError string
  | NotImplementedError
  | TypeError

text \<open>
  The Python values that occur in a parameter list: \<^verbatim>\<open>None\<close>, a string, an integer, a
  literal SQL expression (a \<^verbatim>\<open>TextClause\<close>), a column object, a tuple.
\<close>

datatype pyval =
    PNone
  | PStr string
  | PInt int
  | TextClause string
  | PColumn column
  | PTuple "pyval list"

text \<open>\<^verbatim>\<open>isinstance(v, ClauseElement)\<close>: text clauses and columns are clause elements.\<close>

fun isinstance_ClauseElement :: "pyval \<Rightarrow> bool" where
  "isinstance_ClauseElement (TextClause _) = True"
| "isinstance_ClauseElement (PColumn _) = True"
| "isinstance_ClauseElement _ = False"

text \<open>Truthiness of an optional string: \<^verbatim>\<open>None\<close> and \<^verbatim>\<open>""\<close> are false.\<close>

fun truthy :: "string option \<Rightarrow> bool" where
  "truthy None = False"
| "truthy (Some s) = (s \<noteq> [])"

section \<open>The SQLAlchemy column collection\<close>

text \<open>
  \<^verbatim>\<open>TableCol\<close> and \<^verbatim>\<open>KeysExpressionOrColumn\<close> inherit from SQLAlchemy's
  \<^verbatim>\<open>ColumnCollectionMixin\<close> (SQLAlchemy 1.0 to 1.3, the releases that have the
  four-tuple \<^verbatim>\<open>_extract_col_expression_collection\<close> the module calls). The library
  code the module runs is modelled here, function by function.

  An input of either class is a bare column name (a Python \<^verbatim>\<open>str\<close>) or a literal SQL
  expression (\<^verbatim>\<open>text("...")\<close>, a \<^verbatim>\<open>TextClause\<close>). Inputs that are \<^verbatim>\<open>Column\<close>
  objects, or expressions built over \<^verbatim>\<open>Column\<close> objects, are outside this model.
\<close>

datatype key_input = Name string | Text string

text \<open>
  \<^verbatim>\<open>ColumnCollection.add(column)\<close> stores the column under \<^verbatim>\<open>column.key\<close> in an
  ordered dictionary: a new key goes last, a key already there keeps its place and takes
  the new value. Iterating the collection walks the dictionary's values.
\<close>

definition ColumnCollection_add :: "column list \<Rightarrow> column \<Rightarrow> column list" where
  "ColumnCollection_add cols col =
     (if col_key col \<in> col_key ` set cols
      then map (\<lambda>c. if col_key c = col_key col then col else c) cols
      else cols @ [col])"

text \<open>\<^verbatim>\<open>table.c[name]\<close>: the column stored under that key, or \<^verbatim>\<open>KeyError\<close>.\<close>

definition table_c_getitem :: "table \<Rightarrow> string \<Rightarrow> error + column" where
  "table_c_getitem t k =
     (case find (\<lambda>col. col_key col = k) (table_c t) of
        None \<Rightarrow> Inl (KeyError k)
      | Some col \<Rightarrow> Inr col)"

text \<open>
  The mixin's state: \<^verbatim>\<open>_pending_colargs\<close>, the constructor's arguments, and
  \<^verbatim>\<open>columns\<close>, the collection, empty until \<^verbatim>\<open>_set_parent\<close> fills it.
  \<^verbatim>\<open>__init__\<close> also calls \<^verbatim>\<open>_check_attach\<close>, which acts on \<^verbatim>\<open>Column\<close>
  arguments only and so does nothing here.
\<close>

record column_collection_mixin =
  pending_colargs :: "string list"
  columns :: "column list"

definition ColumnCollectionMixin_init :: "string list \<Rightarrow> column_collection_mixin" where
  "ColumnCollectionMixin_init cols = \<lparr>pending_colargs = cols, columns = []\<rparr>"

text \<open>
  \<^verbatim>\<open>
  def _set_parent(self, table):
      for col in self._pending_colargs:
          if isinstance(col, util.string_types):
              col = table.c[col]
          self.columns.add(col)
  \<close>
\<close>

fun set_parent_loop :: "table \<Rightarrow> string list \<Rightarrow> column list \<Rightarrow> error + column list" where
  "set_parent_loop t [] cols = Inr cols"
| "set_parent_loop t (col # rest) cols =
     (case table_c_getitem t col of
        Inl e \<Rightarrow> Inl e
      | Inr c \<Rightarrow> set_parent_loop t rest (ColumnCollection_add cols c))"

definition ColumnCollectionMixin_set_parent ::
  "table \<Rightarrow> 'a column_collection_mixin_scheme \<Rightarrow> error + 'a column_collection_mixin_scheme" where
  "ColumnCollectionMixin_set_parent t self =
     (case set_parent_loop t (pending_colargs self) (columns self) of
        Inl e \<Rightarrow> Inl e
      | Inr cols \<Rightarrow> Inr (self\<lparr>columns := cols\<rparr>))"

text \<open>
  \<^verbatim>\<open>_extract_col_expression_collection\<close> yields, for each input, the tuple
  \<^verbatim>\<open>(expr, column, strname, add_element)\<close>: for a string, \<^verbatim>\<open>strname\<close> and
  \<^verbatim>\<open>add_element\<close> are the string; for an expression, \<^verbatim>\<open>column\<close> is the first
  \<^verbatim>\<open>Column\<close> found inside it and \<^verbatim>\<open>add_element\<close> is that column. A text clause
  holds no \<^verbatim>\<open>Column\<close>, so both are \<^verbatim>\<open>None\<close>.
\<close>

fun extract_col_expression ::
  "key_input \<Rightarrow> pyval \<times> column option \<times> string option \<times> string option" where
  "extract_col_expression (Name s) = (PStr s, None, Some s, Some s)"
| "extract_col_expression (Text x) = (TextClause x, None, None, None)"

definition extract_col_expression_collection ::
  "key_input list \<Rightarrow> (pyval \<times> column option \<times> string option \<times> string option) list" where
  "extract_col_expression_collection expressions = map extract_col_expression expressions"

text \<open>\<^verbatim>\<open>util.zip_longest\<close>: the shorter sequence is padded with \<^verbatim>\<open>None\<close>.\<close>

fun zip_longest :: "'a list \<Rightarrow> 'b list \<Rightarrow> ('a option \<times> 'b option) list" where
  "zip_longest [] [] = []"
| "zip_longest (x # xs) [] = (Some x, None) # zip_longest xs []"
| "zip_longest [] (y # ys) = (None, Some y) # zip_longest [] ys"
| "zip_longest (x # xs) (y # ys) = (Some x, Some y) # zip_longest xs ys"

section \<open>TableCol\<close>

text \<open>
  \<^verbatim>\<open>
  class TableCol(ColumnCollectionMixin, SchemaItem):
      def __init__(self, column, **kwargs):
          super(TableCol, self).__init__(*[column], **kwargs)

      def get_column(self):
          return list(self.columns)[0]
  \<close>
\<close>

type_synonym table_col = column_collection_mixin

definition TableCol_init :: "string \<Rightarrow> table_col" where
  "TableCol_init col = ColumnCollectionMixin_init [col]"

definition get_column :: "table_col \<Rightarrow> error + column" where
  "get_column self = (case columns self of [] \<Rightarrow> Inl IndexError | c # _ \<Rightarrow> Inr c)"

section \<open>KeysExpressionOrColumn\<close>

record keys_expression_or_column = column_collection_mixin +
  expressions :: "pyval list"

text \<open>
  \<^verbatim>\<open>
  def __init__(self, *expressions, **kwargs):
      columns = []
      self.expressions = []
      for expr, column, strname, add_element in self.\
              _extract_col_expression_collection(expressions):
          if add_element is not None:
              columns.append(add_element)
          self.expressions.append(expr)

      super(KeysExpressionOrColumn, self).__init__(*columns, **kwargs)
  \<close>
  The loop carries the local list \<^verbatim>\<open>columns\<close> and the field \<^verbatim>\<open>self.expressions\<close>.
\<close>

fun init_loop ::
  "(pyval \<times> column option \<times> string option \<times> string option) list \<Rightarrow>
   string list \<times> pyval list \<Rightarrow> string list \<times> pyval list" where
  "init_loop [] (cols, exprs) = (cols, exprs)"
| "init_loop ((expr, column, strname, add_element) # rest) (cols, exprs) =
     init_loop rest
       ((case add_element of None \<Rightarrow> cols | Some a \<Rightarrow> cols @ [a]), exprs @ [expr])"

definition KeysExpressionOrColumn_init :: "key_input list \<Rightarrow> keys_expression_or_column" where
  "KeysExpressionOrColumn_init inputs =
     (case init_loop (extract_col_expression_collection inputs) ([], []) of
        (cols, exprs) \<Rightarrow>
          \<lparr>pending_colargs = pending_colargs (ColumnCollectionMixin_init cols),
           columns = columns (ColumnCollectionMixin_init cols),
           expressions = exprs\<rparr>)"

text \<open>
  \<^verbatim>\<open>
  def get_expressions_or_columns(self):
      expr_columns = util.zip_longest(self.expressions, self.columns)
      return [
          (expr if isinstance(expr, ClauseElement) else colexpr)
          for expr, colexpr in expr_columns
      ]
  \<close>
  A padded \<^verbatim>\<open>expr\<close> is \<^verbatim>\<open>None\<close>, which is no clause element; a padded
  \<^verbatim>\<open>colexpr\<close> is \<^verbatim>\<open>None\<close> and is returned as such.
\<close>

fun expr_or_column :: "pyval option \<times> column option \<Rightarrow> pyval" where
  "expr_or_column (Some expr, colexpr) =
     (if isinstance_ClauseElement expr then expr
      else (case colexpr of None \<Rightarrow> PNone | Some c \<Rightarrow> PColumn c))"
| "expr_or_column (None, colexpr) =
     (case colexpr of None \<Rightarrow> PNone | Some c \<Rightarrow> PColumn c)"

definition get_expressions_or_columns :: "keys_expression_or_column \<Rightarrow> pyval list" where
  "get_expressions_or_columns self =
     map expr_or_column (zip_longest (expressions self) (columns self))"

section \<open>Engines\<close>

text \<open>
  \<^verbatim>\<open>escaper.escape_string\<close> comes from \<^verbatim>\<open>drivers/escaper.py\<close>; it is a parameter
  \<open>esc\<close> of every function that calls it, a function from strings to strings. Applied
  to \<^verbatim>\<open>None\<close> it has no string to return; the model raises \<^verbatim>\<open>TypeError\<close> there.
  No object the constructors build reaches that case: \<^verbatim>\<open>replica_name\<close> is truthy only
  when \<^verbatim>\<open>replica_table_path\<close> is.
\<close>

definition escape_string :: "(string \<Rightarrow> string) \<Rightarrow> string option \<Rightarrow> error + pyval" where
  "escape_string esc v = (case v of None \<Rightarrow> Inl TypeError | Some s \<Rightarrow> Inr (PStr (esc s)))"

text \<open>\<^verbatim>\<open>map(f, xs)\<close> consumed by \<^verbatim>\<open>extend\<close>: the first exception ends it.\<close>

fun map_raise :: "('a \<Rightarrow> error + 'b) \<Rightarrow> 'a list \<Rightarrow> error + 'b list" where
  "map_raise f [] = Inr []"
| "map_raise f (x # xs) =
     (case f x of
        Inl e \<Rightarrow> Inl e
      | Inr y \<Rightarrow> (case map_raise f xs of Inl e \<Rightarrow> Inl e | Inr ys \<Rightarrow> Inr (y # ys)))"

text \<open>The fields \<^verbatim>\<open>MergeTree.__init__\<close> sets.\<close>

record merge_tree =
  date_col :: table_col
  key_cols :: keys_expression_or_column
  sampling :: "keys_expression_or_column option"
  index_granularity :: int
  replica_name :: "string option"
  replica_table_path :: "string option"

text \<open>The fields \<^verbatim>\<open>Buffer.__init__\<close> sets.\<close>

record buffer =
  database :: string
  table_name :: string
  num_layers :: int
  min_time :: int
  max_time :: int
  min_rows :: int
  max_rows :: int
  min_bytes :: int
  max_bytes :: int

text \<open>
  An engine object: its class with the fields of that class, and the attribute
  \<^verbatim>\<open>table\<close> that \<^verbatim>\<open>Engine._set_parent\<close> sets (absent before).
  \<^verbatim>\<open>CollapsingMergeTree\<close> adds \<^verbatim>\<open>sign_col\<close> to the fields of \<^verbatim>\<open>MergeTree\<close>,
  \<^verbatim>\<open>SummingMergeTree\<close> adds \<^verbatim>\<open>summing_cols\<close>; \<^verbatim>\<open>Merge\<close> has \<^verbatim>\<open>db\<close> and
  \<^verbatim>\<open>regexp\<close>.
\<close>

datatype engine_class =
    Engine
  | MergeTree merge_tree
  | CollapsingMergeTree merge_tree table_col
  | SummingMergeTree merge_tree "keys_expression_or_column option"
  | Buffer buffer
  | Memory
  | Merge string string

record engine =
  cls :: engine_class
  table :: "table option"

text \<open>\<^verbatim>\<open>self.__class__.__name__\<close>\<close>

fun class_name :: "engine_class \<Rightarrow> string" where
  "class_name Engine = ''Engine''"
| "class_name (MergeTree _) = ''MergeTree''"
| "class_name (CollapsingMergeTree _ _) = ''CollapsingMergeTree''"
| "class_name (SummingMergeTree _ _) = ''SummingMergeTree''"
| "class_name (Buffer _) = ''Buffer''"
| "class_name Memory = ''Memory''"
| "class_name (Merge _ _) = ''Merge''"

subsection \<open>Constructors\<close>

text \<open>
  \<^verbatim>\<open>
  def __init__(self, date_col, key_expressions, sampling=None,
               index_granularity=None, replica_name=None, replica_table_path=None):
      self.date_col = TableCol(date_col)
      self.key_cols = KeysExpressionOrColumn(*key_expressions)

      self.sampling = None
      self.index_granularity = 8192

      if sampling is not None:
          self.sampling = KeysExpressionOrColumn(sampling)
      if index_granularity is not None:
          self.index_granularity = index_granularity

      self.replica_name = replica_name
      self.replica_table_path = replica_table_path
      if replica_table_path and not replica_name or (not replica_table_path and replica_name):
          raise Exception("Need both or no one [replica_path, replica_name]")
  \<close>
  An argument left out is \<^verbatim>\<open>None\<close>.
\<close>

definition MergeTree_init ::
  "string \<Rightarrow> key_input list \<Rightarrow> key_input option \<Rightarrow> int option \<Rightarrow>
   string option \<Rightarrow> string option \<Rightarrow> error + merge_tree" where
  "MergeTree_init date_col_arg key_expressions sampling_arg index_granularity_arg
       replica_name_arg replica_table_path_arg =
     (let self = \<lparr>date_col = TableCol_init date_col_arg,
                   key_cols = KeysExpressionOrColumn_init key_expressions,
                   sampling = None,
                   index_granularity = 8192,
                   replica_name = None,
                   replica_table_path = None\<rparr>;
          self = (case sampling_arg of
                    None \<Rightarrow> self
                  | Some s \<Rightarrow> self\<lparr>sampling := Some (KeysExpressionOrColumn_init [s])\<rparr>);
          self = (case index_granularity_arg of
                    None \<Rightarrow> self
                  | Some g \<Rightarrow> self\<lparr>index_granularity := g\<rparr>);
          self = self\<lparr>replica_name := replica_name_arg\<rparr>;
          self = self\<lparr>replica_table_path := replica_table_path_arg\<rparr>
      in if (truthy replica_table_path_arg \<and> \<not> truthy replica_name_arg)
            \<or> (\<not> truthy replica_table_path_arg \<and> truthy replica_name_arg)
         then Inl (Exception ''Need both or no one [replica_path, replica_name]'')
         else Inr self)"

text \<open>A new engine object of the given class: no \<^verbatim>\<open>table\<close> yet.\<close>

definition new :: "engine_class \<Rightarrow> engine" where
  "new k = \<lparr>cls = k, table = None\<rparr>"

definition new_MergeTree ::
  "string \<Rightarrow> key_input list \<Rightarrow> key_input option \<Rightarrow> int option \<Rightarrow>
   string option \<Rightarrow> string option \<Rightarrow> error + engine" where
  "new_MergeTree date_col_arg key_expressions sampling_arg index_granularity_arg
       replica_name_arg replica_table_path_arg =
     (case MergeTree_init date_col_arg key_expressions sampling_arg index_granularity_arg
             replica_name_arg replica_table_path_arg of
        Inl e \<Rightarrow> Inl e
      | Inr mt \<Rightarrow> Inr (new (MergeTree mt)))"

text \<open>
  \<^verbatim>\<open>
  def __init__(self, date_col, key_expressions, sign_col, sampling=None,
               index_granularity=None):
      super(CollapsingMergeTree, self).__init__(
          date_col, key_expressions, sampling=sampling,
          index_granularity=index_granularity
      )
      self.sign_col = TableCol(sign_col)
  \<close>
\<close>

definition new_CollapsingMergeTree ::
  "string \<Rightarrow> key_input list \<Rightarrow> string \<Rightarrow> key_input option \<Rightarrow> int option \<Rightarrow>
   error + engine" where
  "new_CollapsingMergeTree date_col_arg key_expressions sign_col_arg sampling_arg
       index_granularity_arg =
     (case MergeTree_init date_col_arg key_expressions sampling_arg index_granularity_arg
             None None of
        Inl e \<Rightarrow> Inl e
      | Inr mt \<Rightarrow> Inr (new (CollapsingMergeTree mt (TableCol_init sign_col_arg))))"

text \<open>
  \<^verbatim>\<open>
  def __init__(self, date_col, key_expressions, summing_cols=None,
               sampling=None, index_granularity=None):
      super(SummingMergeTree, self).__init__(
          date_col, key_expressions, sampling=sampling,
          index_granularity=index_granularity
      )

      self.summing_cols = None
      if summing_cols is not None:
          self.summing_cols = KeysExpressionOrColumn(*summing_cols)
  \<close>
\<close>

definition new_SummingMergeTree ::
  "string \<Rightarrow> key_input list \<Rightarrow> key_input list option \<Rightarrow> key_input option \<Rightarrow>
   int option \<Rightarrow> error + engine" where
  "new_SummingMergeTree date_col_arg key_expressions summing_cols_arg sampling_arg
       index_granularity_arg =
     (case MergeTree_init date_col_arg key_expressions sampling_arg index_granularity_arg
             None None of
        Inl e \<Rightarrow> Inl e
      | Inr mt \<Rightarrow>
          Inr (new (SummingMergeTree mt
                 (case summing_cols_arg of
                    None \<Rightarrow> None
                  | Some cs \<Rightarrow> Some (KeysExpressionOrColumn_init cs)))))"

text \<open>
  \<^verbatim>\<open>Buffer.__init__\<close> stores its nine arguments; the seven numeric ones have defaults,
  taken when the argument is left out (\<open>None\<close> here).
\<close>

definition new_Buffer ::
  "string \<Rightarrow> string \<Rightarrow> int option \<Rightarrow> int option \<Rightarrow> int option \<Rightarrow> int option \<Rightarrow>
   int option \<Rightarrow> int option \<Rightarrow> int option \<Rightarrow> engine" where
  "new_Buffer database_arg table_arg num_layers_arg min_time_arg max_time_arg min_rows_arg
       max_rows_arg min_bytes_arg max_bytes_arg =
     new (Buffer \<lparr>database = database_arg,
                   table_name = table_arg,
                   num_layers = (case num_layers_arg of None \<Rightarrow> 16 | Some v \<Rightarrow> v),
                   min_time = (case min_time_arg of None \<Rightarrow> 10 | Some v \<Rightarrow> v),
                   max_time = (case max_time_arg of None \<Rightarrow> 100 | Some v \<Rightarrow> v),
                   min_rows = (case min_rows_arg of None \<Rightarrow> 10000 | Some v \<Rightarrow> v),
                   max_rows = (case max_rows_arg of None \<Rightarrow> 1000000 | Some v \<Rightarrow> v),
                   min_bytes = (case min_bytes_arg of None \<Rightarrow> 10000000 | Some v \<Rightarrow> v),
                   max_bytes = (case max_bytes_arg of None \<Rightarrow> 100000000 | Some v \<Rightarrow> v)\<rparr>)"

definition new_Memory :: engine where
  "new_Memory = new Memory"

definition new_Merge :: "string \<Rightarrow> string \<Rightarrow> engine" where
  "new_Merge db regexp = new (Merge db regexp)"

subsection \<open>Binding to a table\<close>

text \<open>
  \<^verbatim>\<open>
  def _set_parent(self, table):
      self.table = table
      self.table.engine = self
  \<close>
  The second assignment writes a field of the table, which is no part of the engine
  object.
\<close>

definition Engine_set_parent :: "table \<Rightarrow> engine \<Rightarrow> engine" where
  "Engine_set_parent t self = self\<lparr>table := Some t\<rparr>"

text \<open>
  \<^verbatim>\<open>
  def _set_parent(self, table):
      super(MergeTree, self)._set_parent(table)

      self.date_col._set_parent(table)
      self.key_cols._set_parent(table)

      if self.sampling:
          self.sampling._set_parent(table)
  \<close>
  \<^verbatim>\<open>KeysExpressionOrColumn._set_parent\<close> only calls the mixin's. A
  \<^verbatim>\<open>KeysExpressionOrColumn\<close> object defines neither \<^verbatim>\<open>__bool__\<close> nor
  \<^verbatim>\<open>__len__\<close>, so \<^verbatim>\<open>if self.sampling\<close> asks whether the field is not \<^verbatim>\<open>None\<close>.
  The function below is the part on the fields of \<^verbatim>\<open>MergeTree\<close>.
\<close>

definition MergeTree_set_parent :: "table \<Rightarrow> merge_tree \<Rightarrow> error + merge_tree" where
  "MergeTree_set_parent t self =
     (case ColumnCollectionMixin_set_parent t (date_col self) of
        Inl e \<Rightarrow> Inl e
      | Inr dc \<Rightarrow>
          (case ColumnCollectionMixin_set_parent t (key_cols self) of
             Inl e \<Rightarrow> Inl e
           | Inr kc \<Rightarrow>
               (case sampling self of
                  None \<Rightarrow> Inr (self\<lparr>date_col := dc, key_cols := kc\<rparr>)
                | Some s \<Rightarrow>
                    (case ColumnCollectionMixin_set_parent t s of
                       Inl e \<Rightarrow> Inl e
                     | Inr s' \<Rightarrow>
                         Inr (self\<lparr>date_col := dc, key_cols := kc, sampling := Some s'\<rparr>)))))"

text \<open>
  \<^verbatim>\<open>_set_parent\<close> of an engine object, by class. \<^verbatim>\<open>CollapsingMergeTree\<close> binds
  \<^verbatim>\<open>sign_col\<close> after the fields of \<^verbatim>\<open>MergeTree\<close>, \<^verbatim>\<open>SummingMergeTree\<close> binds
  \<^verbatim>\<open>summing_cols\<close> when it is set; the other classes inherit \<^verbatim>\<open>Engine._set_parent\<close>.
  An exception (the \<^verbatim>\<open>KeyError\<close> of a name the table does not have) ends the call;
  the result is then the exception alone.
\<close>

definition set_parent :: "table \<Rightarrow> engine \<Rightarrow> error + engine" where
  "set_parent t self0 =
     (let self = Engine_set_parent t self0 in
      case cls self of
        MergeTree mt \<Rightarrow>
          (case MergeTree_set_parent t mt of
             Inl e \<Rightarrow> Inl e
           | Inr mt' \<Rightarrow> Inr (self\<lparr>cls := MergeTree mt'\<rparr>))
      | CollapsingMergeTree mt sign_col \<Rightarrow>
          (case MergeTree_set_parent t mt of
             Inl e \<Rightarrow> Inl e
           | Inr mt' \<Rightarrow>
               (case ColumnCollectionMixin_set_parent t sign_col of
                  Inl e \<Rightarrow> Inl e
                | Inr sc \<Rightarrow> Inr (self\<lparr>cls := CollapsingMergeTree mt' sc\<rparr>)))
      | SummingMergeTree mt summing_cols \<Rightarrow>
          (case MergeTree_set_parent t mt of
             Inl e \<Rightarrow> Inl e
           | Inr mt' \<Rightarrow>
               (case summing_cols of
                  None \<Rightarrow> Inr (self\<lparr>cls := SummingMergeTree mt' None\<rparr>)
                | Some sm \<Rightarrow>
                    (case ColumnCollectionMixin_set_parent t sm of
                       Inl e \<Rightarrow> Inl e
                     | Inr sm' \<Rightarrow> Inr (self\<lparr>cls := SummingMergeTree mt' (Some sm')\<rparr>))))
      | _ \<Rightarrow> Inr self)"

subsection \<open>Parameters and name\<close>

text \<open>
  \<^verbatim>\<open>
  def get_params(self):
      params = []
      if self.replica_name:
          params.extend(map(escaper.escape_string, [self.replica_table_path, self.replica_name]))

      params.append(self.date_col.get_column())

      if self.sampling:
          params.append(self.sampling.get_expressions_or_columns()[0])

      params.append(tuple(self.key_cols.get_expressions_or_columns()))
      params.append(self.index_granularity)
      return params
  \<close>
\<close>

definition MergeTree_get_params :: "(string \<Rightarrow> string) \<Rightarrow> merge_tree \<Rightarrow> error + pyval list" where
  "MergeTree_get_params esc self =
     (case (if truthy (replica_name self)
            then map_raise (escape_string esc) [replica_table_path self, replica_name self]
            else Inr []) of
        Inl e \<Rightarrow> Inl e
      | Inr params1 \<Rightarrow>
          (case get_column (date_col self) of
             Inl e \<Rightarrow> Inl e
           | Inr c \<Rightarrow>
               (case (case sampling self of
                        None \<Rightarrow> Inr (params1 @ [PColumn c])
                      | Some s \<Rightarrow>
                          (case get_expressions_or_columns s of
                             [] \<Rightarrow> Inl IndexError
                           | x # _ \<Rightarrow> Inr (params1 @ [PColumn c] @ [x]))) of
                  Inl e \<Rightarrow> Inl e
                | Inr params2 \<Rightarrow>
                    Inr (params2 @ [PTuple (get_expressions_or_columns (key_cols self))]
                           @ [PInt (index_granularity self)]))))"

text \<open>
  \<^verbatim>\<open>get_params\<close> of an engine object, by class. A method call can change its receiver,
  so the result is paired with the receiver as the call leaves it.
  \<^verbatim>\<open>
  class Engine:               raise NotImplementedError()
  class CollapsingMergeTree:  params = super(CollapsingMergeTree, self).get_params()
                              params.append(self.sign_col.get_column())
                              return params
  class SummingMergeTree:     params = super(SummingMergeTree, self).get_params()
                              if self.summing_cols:
                                  params.append(tuple(self.summing_cols.get_expressions_or_columns()))
                              return params
  class Buffer:               return [self.database, self.table_name, self.num_layers,
                                      self.min_time, self.max_time, self.min_rows,
                                      self.max_rows, self.min_bytes, self.max_bytes]
  class Memory:               return []
  class Merge:                return [self.db, escaper.escape_string(self.regexp)]
  \<close>
\<close>

definition get_params :: "(string \<Rightarrow> string) \<Rightarrow> engine \<Rightarrow> (error + pyval list) \<times> engine" where
  "get_params esc self =
     (case cls self of
        Engine \<Rightarrow> (Inl NotImplementedError, self)
      | MergeTree mt \<Rightarrow> (MergeTree_get_params esc mt, self)
      | CollapsingMergeTree mt sign_col \<Rightarrow>
          (case MergeTree_get_params esc mt of
             Inl e \<Rightarrow> (Inl e, self)
           | Inr params \<Rightarrow>
               (case get_column sign_col of
                  Inl e \<Rightarrow> (Inl e, self)
                | Inr c \<Rightarrow> (Inr (params @ [PColumn c]), self)))
      | SummingMergeTree mt summing_cols \<Rightarrow>
          (case MergeTree_get_params esc mt of
             Inl e \<Rightarrow> (Inl e, self)
           | Inr params \<Rightarrow>
               (case summing_cols of
                  None \<Rightarrow> (Inr params, self)
                | Some sm \<Rightarrow>
                    (Inr (params @ [PTuple (get_expressions_or_columns sm)]), self)))
      | Buffer b \<Rightarrow>
          (Inr [PStr (database b), PStr (table_name b), PInt (num_layers b),
                PInt (min_time b), PInt (max_time b), PInt (min_rows b),
                PInt (max_rows b), PInt (min_bytes b), PInt (max_bytes b)], self)
      | Memory \<Rightarrow> (Inr [], self)
      | Merge db regexp \<Rightarrow> (Inr [PStr db, PStr (esc regexp)], self))"

text \<open>The list a call returns, or the exception it raises.\<close>

definition params_of :: "(string \<Rightarrow> string) \<Rightarrow> engine \<Rightarrow> error + pyval list" where
  "params_of esc self = fst (get_params esc self)"

text \<open>
  \<^verbatim>\<open>
  class Engine:     return self.__class__.__name__
  class MergeTree:  return ("Replicated" if self.replica_name else "") + self.__class__.__name__
  \<close>
  \<^verbatim>\<open>CollapsingMergeTree\<close> and \<^verbatim>\<open>SummingMergeTree\<close> inherit the second.
\<close>

definition MergeTree_name :: "merge_tree \<Rightarrow> string \<Rightarrow> string" where
  "MergeTree_name mt class_name_of_self =
     (if truthy (replica_name mt) then ''Replicated'' else '''') @ class_name_of_self"

definition name :: "engine \<Rightarrow> string" where
  "name self =
     (case cls self of
        MergeTree mt \<Rightarrow> MergeTree_name mt (class_name (cls self))
      | CollapsingMergeTree mt _ \<Rightarrow> MergeTree_name mt (class_name (cls self))
      | SummingMergeTree mt _ \<Rightarrow> MergeTree_name mt (class_name (cls self))
      | _ \<Rightarrow> class_name (cls self))"

text \<open>
  The fields \<^verbatim>\<open>MergeTree.__init__\<close> leaves when it does not raise, in closed form.
\<close>

definition fresh_fields ::
  "string \<Rightarrow> key_input list \<Rightarrow> key_input option \<Rightarrow> int option \<Rightarrow>
   string option \<Rightarrow> string option \<Rightarrow> merge_tree" where
  "fresh_fields d ks smp g rn rp =
     \<lparr>date_col = TableCol_init d,
      key_cols = KeysExpressionOrColumn_init ks,
      sampling = map_option (\<lambda>s. KeysExpressionOrColumn_init [s]) smp,
      index_granularity = (case g of None \<Rightarrow> 8192 | Some v \<Rightarrow> v),
      replica_name = rn,
      replica_table_path = rp\<rparr>"

text \<open>
  The column names among the inputs of a \<^verbatim>\<open>KeysExpressionOrColumn\<close>, and the
  expressions its constructor stores for them, in closed form.
\<close>

fun names_in :: "key_input list \<Rightarrow> string list" where
  "names_in [] = []"
| "names_in (Name n # ks) = n # names_in ks"
| "names_in (Text x # ks) = names_in ks"

fun exprs_in :: "key_input list \<Rightarrow> pyval list" where
  "exprs_in [] = []"
| "exprs_in (Name n # ks) = PStr n # exprs_in ks"
| "exprs_in (Text x # ks) = TextClause x # exprs_in ks"

text \<open>
  The round trip of a \<^verbatim>\<open>KeysExpressionOrColumn\<close>: construct it from the inputs, bind
  it to the table, and read \<^verbatim>\<open>get_expressions_or_columns()\<close>.
\<close>

definition rendered_after_attach :: "table \<Rightarrow> key_input list \<Rightarrow> error + pyval list" where
  "rendered_after_attach t inputs =
     (case ColumnCollectionMixin_set_parent t (KeysExpressionOrColumn_init inputs) of
        Inl e \<Rightarrow> Inl e
      | Inr self \<Rightarrow> Inr (get_expressions_or_columns self))"

section \<open>Engine objects in a store\<close>

text \<open>
  Python objects are shared by reference and changed in place: \<^verbatim>\<open>params.append(x)\<close>
  changes the list object \<^verbatim>\<open>params\<close> names, whoever else holds it. To say what a
  call of \<^verbatim>\<open>get_params\<close> changes, the engine object, the objects it owns and the list
  the call builds are placed in a store: a list of objects, an object's address being its
  index. An engine object holds the addresses of its \<^verbatim>\<open>TableCol\<close> and
  \<^verbatim>\<open>KeysExpressionOrColumn\<close> children; each of these holds the addresses of its
  \<^verbatim>\<open>_pending_colargs\<close> list, its \<^verbatim>\<open>columns\<close> collection and, for the second
  class, its \<^verbatim>\<open>expressions\<close> list. Strings, integers, text clauses, columns and
  tuples cannot be changed in place and stay values.
\<close>

type_synonym addr = nat

record merge_tree_refs =
  date_col_ref :: addr
  key_cols_ref :: addr
  sampling_ref :: "addr option"
  index_granularity_val :: int
  replica_name_val :: "string option"
  replica_table_path_val :: "string option"

datatype engine_refs =
    EngineR
  | MergeTreeR merge_tree_refs
  | CollapsingMergeTreeR merge_tree_refs addr
  | SummingMergeTreeR merge_tree_refs "addr option"
  | BufferR buffer
  | MemoryR
  | MergeR string string

datatype object =
    ListObj "pyval list"
  | ColumnCollectionObj "column list"
  | TableColObj addr addr
  | KeysExpressionOrColumnObj addr addr addr
  | EngineObj engine_refs "table option"

type_synonym store = "object list"

definition lookup :: "store \<Rightarrow> addr \<Rightarrow> object option" where
  "lookup h a = (if a < length h then Some (h ! a) else None)"

text \<open>
  A step of a method runs on the store and leaves a store. It returns a value or fails:
  with an exception the code raises, or because an address does not hold an object of the
  class the code expects there (\<open>Dangling\<close>, which no store that lays out an engine
  object produces).
\<close>

datatype fault = Raised error | Dangling

type_synonym 'a prog = "store \<Rightarrow> (fault + 'a) \<times> store"

definition ret :: "'a \<Rightarrow> 'a prog" where
  "ret x = (\<lambda>h. (Inr x, h))"

definition raise :: "fault \<Rightarrow> 'a prog" where
  "raise f = (\<lambda>h. (Inl f, h))"

definition bind :: "'a prog \<Rightarrow> ('a \<Rightarrow> 'b prog) \<Rightarrow> 'b prog" where
  "bind m k = (\<lambda>h. case m h of (Inl f, h') \<Rightarrow> (Inl f, h') | (Inr x, h') \<Rightarrow> k x h')"

text \<open>An exception of a computation on values, raised in the store as it stands.\<close>

definition lift :: "error + 'a \<Rightarrow> 'a prog" where
  "lift r = (case r of Inl e \<Rightarrow> raise (Raised e) | Inr x \<Rightarrow> ret x)"

text \<open>
  \<^verbatim>\<open>[]\<close> and \<^verbatim>\<open>[a, b, ...]\<close> make a new list object; \<^verbatim>\<open>xs.append(v)\<close> and
  \<^verbatim>\<open>xs.extend(vs)\<close> change the list object at the address \<open>xs\<close>.
\<close>

definition new_list :: "pyval list \<Rightarrow> addr prog" where
  "new_list vs = (\<lambda>h. (Inr (length h), h @ [ListObj vs]))"

definition list_append :: "addr \<Rightarrow> pyval \<Rightarrow> unit prog" where
  "list_append xs v =
     (\<lambda>h. case lookup h xs of
             Some (ListObj vs) \<Rightarrow> (Inr (), h[xs := ListObj (vs @ [v])])
           | _ \<Rightarrow> (Inl Dangling, h))"

definition list_extend :: "addr \<Rightarrow> pyval list \<Rightarrow> unit prog" where
  "list_extend xs ws =
     (\<lambda>h. case lookup h xs of
             Some (ListObj vs) \<Rightarrow> (Inr (), h[xs := ListObj (vs @ ws)])
           | _ \<Rightarrow> (Inl Dangling, h))"

text \<open>
  Reading \<^verbatim>\<open>self.columns\<close> and \<^verbatim>\<open>self.expressions\<close> of the child at an address, and
  the engine object at an address. \<^verbatim>\<open>list(self.columns)\<close>, the list the comprehension
  of \<^verbatim>\<open>get_expressions_or_columns\<close> builds and the argument of \<^verbatim>\<open>extend\<close> are lists
  an expression makes, reads and drops; they are values here.
\<close>

definition read_columns :: "addr \<Rightarrow> column list prog" where
  "read_columns self =
     (\<lambda>h. case lookup h self of
             Some (TableColObj _ c) \<Rightarrow>
               (case lookup h c of
                  Some (ColumnCollectionObj cols) \<Rightarrow> (Inr cols, h)
                | _ \<Rightarrow> (Inl Dangling, h))
           | Some (KeysExpressionOrColumnObj _ c _) \<Rightarrow>
               (case lookup h c of
                  Some (ColumnCollectionObj cols) \<Rightarrow> (Inr cols, h)
                | _ \<Rightarrow> (Inl Dangling, h))
           | _ \<Rightarrow> (Inl Dangling, h))"

definition read_expressions :: "addr \<Rightarrow> pyval list prog" where
  "read_expressions self =
     (\<lambda>h. case lookup h self of
             Some (KeysExpressionOrColumnObj _ _ x) \<Rightarrow>
               (case lookup h x of
                  Some (ListObj exprs) \<Rightarrow> (Inr exprs, h)
                | _ \<Rightarrow> (Inl Dangling, h))
           | _ \<Rightarrow> (Inl Dangling, h))"

definition read_engine :: "addr \<Rightarrow> engine_refs prog" where
  "read_engine self =
     (\<lambda>h. case lookup h self of
             Some (EngineObj k _) \<Rightarrow> (Inr k, h)
           | _ \<Rightarrow> (Inl Dangling, h))"

text \<open>
  \<^verbatim>\<open>
  def get_column(self):
      return list(self.columns)[0]

  def get_expressions_or_columns(self):
      expr_columns = util.zip_longest(self.expressions, self.columns)
      return [
          (expr if isinstance(expr, ClauseElement) else colexpr)
          for expr, colexpr in expr_columns
      ]
  \<close>
\<close>

definition get_column_at :: "addr \<Rightarrow> column prog" where
  "get_column_at self =
     bind (read_columns self) (\<lambda>cols.
       case cols of [] \<Rightarrow> raise (Raised IndexError) | c # _ \<Rightarrow> ret c)"

definition get_expressions_or_columns_at :: "addr \<Rightarrow> pyval list prog" where
  "get_expressions_or_columns_at self =
     bind (read_expressions self) (\<lambda>exprs.
     bind (read_columns self) (\<lambda>cols.
       ret (map expr_or_column (zip_longest exprs cols))))"

text \<open>
  \<^verbatim>\<open>
  def get_params(self):
      params = []
      if self.replica_name:
          params.extend(map(escaper.escape_string, [self.replica_table_path, self.replica_name]))

      params.append(self.date_col.get_column())

      if self.sampling:
          params.append(self.sampling.get_expressions_or_columns()[0])

      params.append(tuple(self.key_cols.get_expressions_or_columns()))
      params.append(self.index_granularity)
      return params
  \<close>
  One line of the model for each statement; the method returns the address of the list.
\<close>

definition MergeTree_get_params_at :: "(string \<Rightarrow> string) \<Rightarrow> merge_tree_refs \<Rightarrow> addr prog" where
  "MergeTree_get_params_at esc self =
     bind (new_list []) (\<lambda>params.
     bind (if truthy (replica_name_val self)
           then bind (lift (map_raise (escape_string esc)
                              [replica_table_path_val self, replica_name_val self]))
                  (\<lambda>escaped. list_extend params escaped)
           else ret ()) (\<lambda>_.
     bind (get_column_at (date_col_ref self)) (\<lambda>c.
     bind (list_append params (PColumn c)) (\<lambda>_.
     bind (case sampling_ref self of
             None \<Rightarrow> ret ()
           | Some s \<Rightarrow>
               bind (get_expressions_or_columns_at s) (\<lambda>items.
                 case items of
                   [] \<Rightarrow> raise (Raised IndexError)
                 | x # _ \<Rightarrow> list_append params x)) (\<lambda>_.
     bind (get_expressions_or_columns_at (key_cols_ref self)) (\<lambda>key.
     bind (list_append params (PTuple key)) (\<lambda>_.
     bind (list_append params (PInt (index_granularity_val self))) (\<lambda>_.
     ret params))))))))"

text \<open>
  \<^verbatim>\<open>get_params\<close> of the engine object at an address, by class.
  \<^verbatim>\<open>
  class Engine:               raise NotImplementedError()
  class CollapsingMergeTree:  params = super(CollapsingMergeTree, self).get_params()
                              params.append(self.sign_col.get_column())
                              return params
  class SummingMergeTree:     params = super(SummingMergeTree, self).get_params()
                              if self.summing_cols:
                                  params.append(tuple(self.summing_cols.get_expressions_or_columns()))
                              return params
  class Buffer:               return [self.database, self.table_name, self.num_layers,
                                      self.min_time, self.max_time, self.min_rows,
                                      self.max_rows, self.min_bytes, self.max_bytes]
  class Memory:               return []
  class Merge:                return [self.db, escaper.escape_string(self.regexp)]
  \<close>
\<close>

definition get_params_at :: "(string \<Rightarrow> string) \<Rightarrow> addr \<Rightarrow> addr prog" where
  "get_params_at esc self =
     bind (read_engine self) (\<lambda>k.
       case k of
         EngineR \<Rightarrow> raise (Raised NotImplementedError)
       | MergeTreeR mt \<Rightarrow> MergeTree_get_params_at esc mt
       | CollapsingMergeTreeR mt sign_col \<Rightarrow>
           bind (MergeTree_get_params_at esc mt) (\<lambda>params.
           bind (get_column_at sign_col) (\<lambda>c.
           bind (list_append params (PColumn c)) (\<lambda>_.
           ret params)))
       | SummingMergeTreeR mt summing_cols \<Rightarrow>
           bind (MergeTree_get_params_at esc mt) (\<lambda>params.
           bind (case summing_cols of
                   None \<Rightarrow> ret ()
                 | Some sm \<Rightarrow>
                     bind (get_expressions_or_columns_at sm) (\<lambda>items.
                       list_append params (PTuple items))) (\<lambda>_.
           ret params))
       | BufferR b \<Rightarrow>
           new_list [PStr (database b), PStr (table_name b), PInt (num_layers b),
                     PInt (min_time b), PInt (max_time b), PInt (min_rows b),
                     PInt (max_rows b), PInt (min_bytes b), PInt (max_bytes b)]
       | MemoryR \<Rightarrow> new_list []
       | MergeR db regexp \<Rightarrow> new_list [PStr db, PStr (esc regexp)])"

text \<open>
  A store lays out an engine object \<open>e\<close> at an address when the objects found from the
  address hold the fields of \<open>e\<close>, the children and their lists included.
\<close>

definition holds_mixin :: "store \<Rightarrow> addr \<Rightarrow> addr \<Rightarrow> 'a column_collection_mixin_scheme \<Rightarrow> bool" where
  "holds_mixin h p c self \<longleftrightarrow>
     lookup h p = Some (ListObj (map PStr (pending_colargs self))) \<and>
     lookup h c = Some (ColumnCollectionObj (columns self))"

definition holds_TableCol :: "store \<Rightarrow> addr \<Rightarrow> table_col \<Rightarrow> bool" where
  "holds_TableCol h a self \<longleftrightarrow>
     (case lookup h a of
        Some (TableColObj p c) \<Rightarrow> holds_mixin h p c self
      | _ \<Rightarrow> False)"

definition holds_Keys :: "store \<Rightarrow> addr \<Rightarrow> keys_expression_or_column \<Rightarrow> bool" where
  "holds_Keys h a self \<longleftrightarrow>
     (case lookup h a of
        Some (KeysExpressionOrColumnObj p c x) \<Rightarrow>
          holds_mixin h p c self \<and> lookup h x = Some (ListObj (expressions self))
      | _ \<Rightarrow> False)"

definition holds_Keys_option ::
  "store \<Rightarrow> addr option \<Rightarrow> keys_expression_or_column option \<Rightarrow> bool" where
  "holds_Keys_option h a self \<longleftrightarrow>
     (case (a, self) of
        (None, None) \<Rightarrow> True
      | (Some a', Some self') \<Rightarrow> holds_Keys h a' self'
      | _ \<Rightarrow> False)"

definition holds_MergeTree :: "store \<Rightarrow> merge_tree_refs \<Rightarrow> merge_tree \<Rightarrow> bool" where
  "holds_MergeTree h r self \<longleftrightarrow>
     holds_TableCol h (date_col_ref r) (date_col self) \<and>
     holds_Keys h (key_cols_ref r) (key_cols self) \<and>
     holds_Keys_option h (sampling_ref r) (sampling self) \<and>
     index_granularity_val r = index_granularity self \<and>
     replica_name_val r = replica_name self \<and>
     replica_table_path_val r = replica_table_path self"

fun holds_class :: "store \<Rightarrow> engine_refs \<Rightarrow> engine_class \<Rightarrow> bool" where
  "holds_class h EngineR Engine = True"
| "holds_class h (MergeTreeR r) (MergeTree mt) = holds_MergeTree h r mt"
| "holds_class h (CollapsingMergeTreeR r s) (CollapsingMergeTree mt sign_col) =
     (holds_MergeTree h r mt \<and> holds_TableCol h s sign_col)"
| "holds_class h (SummingMergeTreeR r s) (SummingMergeTree mt summing_cols) =
     (holds_MergeTree h r mt \<and> holds_Keys_option h s summing_cols)"
| "holds_class h (BufferR b) (Buffer b') = (b = b')"
| "holds_class h MemoryR Memory = True"
| "holds_class h (MergeR db regexp) (Merge db' regexp') = (db = db' \<and> regexp = regexp')"
| "holds_class h _ _ = False"

definition holds_engine :: "store \<Rightarrow> addr \<Rightarrow> engine \<Rightarrow> bool" where
  "holds_engine h a e \<longleftrightarrow>
     (case lookup h a of
        Some (EngineObj k t) \<Rightarrow> t = table e \<and> holds_class h k (cls e)
      | _ \<Rightarrow> False)"

text \<open>Every object of the first store is in the second, at its address, as it was.\<close>

definition unchanged :: "store \<Rightarrow> store \<Rightarrow> bool" where
  "unchanged h h' \<longleftrightarrow> length h \<le> length h' \<and> take (length h) h' = h"

text \<open>
  A step keeps a store \<open>h0\<close>: started in any store that still has every object of
  \<open>h0\<close> as it was, it ends in such a store, and the value it returns satisfies \<open>Q\<close>.
\<close>

definition frames :: "store \<Rightarrow> 'a prog \<Rightarrow> ('a \<Rightarrow> bool) \<Rightarrow> bool" where
  "frames h0 m Q \<longleftrightarrow>
     (\<forall>h. unchanged h0 h \<longrightarrow>
        unchanged h0 (snd (m h)) \<and> (case fst (m h) of Inl _ \<Rightarrow> True | Inr x \<Rightarrow> Q x))"

section \<open>Facts about the model\<close>

lemma ColumnCollection_add_Nil [simp]: "ColumnCollection_add [] c = [c]"
  by (simp add: ColumnCollection_add_def)

lemma set_parent_loop_single:
  "set_parent_loop t [n] [] =
     (case table_c_getitem t n of Inl e \<Rightarrow> Inl e | Inr c \<Rightarrow> Inr [c])"
  by (simp add: ColumnCollection_add_def split: sum.splits)

lemma TableCol_set_parent:
  "ColumnCollectionMixin_set_parent t (TableCol_init n) =
     (case table_c_getitem t n of
        Inl e \<Rightarrow> Inl e
      | Inr c \<Rightarrow> Inr \<lparr>pending_colargs = [n], columns = [c]\<rparr>)"
  by (simp add: ColumnCollectionMixin_set_parent_def TableCol_init_def
      ColumnCollectionMixin_init_def set_parent_loop_single split: sum.splits)

lemma TableCol_attached_get_column:
  assumes "ColumnCollectionMixin_set_parent t (TableCol_init n) = Inr tc"
  shows "\<exists>c. table_c_getitem t n = Inr c \<and> get_column tc = Inr c"
  using assms by (auto simp: TableCol_set_parent get_column_def split: sum.splits)

lemma sampling_init_Name:
  "KeysExpressionOrColumn_init [Name n] =
     \<lparr>pending_colargs = [n], columns = [], expressions = [PStr n]\<rparr>"
  by (simp add: KeysExpressionOrColumn_init_def extract_col_expression_collection_def
      ColumnCollectionMixin_init_def)

lemma sampling_init_Text:
  "KeysExpressionOrColumn_init [Text x] =
     \<lparr>pending_colargs = [], columns = [], expressions = [TextClause x]\<rparr>"
  by (simp add: KeysExpressionOrColumn_init_def extract_col_expression_collection_def
      ColumnCollectionMixin_init_def)

lemma single_attached_rendered:
  assumes "ColumnCollectionMixin_set_parent t (KeysExpressionOrColumn_init [s]) = Inr sc"
  shows "\<exists>item. get_expressions_or_columns sc = [item]"
  using assms
  by (cases s)
     (auto simp: sampling_init_Name sampling_init_Text ColumnCollectionMixin_set_parent_def
        set_parent_loop_single get_expressions_or_columns_def split: sum.splits)

lemma MergeTree_init_eq:
  "MergeTree_init d ks smp g rn rp =
     (if truthy rn = truthy rp
      then Inr (fresh_fields d ks smp g rn rp)
      else Inl (Exception ''Need both or no one [replica_path, replica_name]''))"
  by (cases smp; cases g) (auto simp: MergeTree_init_def fresh_fields_def Let_def)

lemma replication_entries:
  assumes "truthy rn = truthy rp"
  shows "(if truthy rn then map_raise (escape_string esc) [rp, rn] else Inr []) =
         Inr (case (rn, rp) of
                (Some n, Some p) \<Rightarrow> if n \<noteq> [] \<and> p \<noteq> [] then [PStr (esc p), PStr (esc n)] else []
              | _ \<Rightarrow> [])"
  using assms by (cases rn; cases rp) (auto simp: escape_string_def)

lemma MergeTree_get_params_ok:
  assumes "truthy (replica_name mt) = truthy (replica_table_path mt)"
      and "get_column (date_col mt) = Inr dc"
      and "case sampling mt of None \<Rightarrow> items = [] | Some s \<Rightarrow> get_expressions_or_columns s = items \<and> length items = 1"
  shows "MergeTree_get_params esc mt =
        Inr ((case (replica_name mt, replica_table_path mt) of
                (Some n, Some p) \<Rightarrow> if n \<noteq> [] \<and> p \<noteq> [] then [PStr (esc p), PStr (esc n)] else []
              | _ \<Rightarrow> [])
             @ [PColumn dc] @ items
             @ [PTuple (get_expressions_or_columns (key_cols mt)),
                PInt (index_granularity mt)])"
proof -
  have smp: "(case sampling mt of
                None \<Rightarrow> Inr (ps @ [PColumn dc])
              | Some s \<Rightarrow>
                  (case get_expressions_or_columns s of
                     [] \<Rightarrow> Inl IndexError
                   | x # _ \<Rightarrow> Inr (ps @ [PColumn dc] @ [x]))) =
             Inr (ps @ [PColumn dc] @ items)" for ps :: "pyval list"
    using assms(3) by (cases "sampling mt") (auto simp: length_Suc_conv)
  show ?thesis
    unfolding MergeTree_get_params_def replication_entries [OF assms(1)] assms(2) sum.case smp
    by simp
qed

lemma MergeTree_attached_params:
  assumes ok: "truthy rn = truthy rp"
      and att: "MergeTree_set_parent t (fresh_fields d ks smp g rn rp) = Inr mt"
  shows "\<exists>dc kc items.
      table_c_getitem t d = Inr dc \<and>
      ColumnCollectionMixin_set_parent t (KeysExpressionOrColumn_init ks) = Inr kc \<and>
      (case smp of
         None \<Rightarrow> items = []
       | Some s \<Rightarrow>
           \<exists>sc item. ColumnCollectionMixin_set_parent t (KeysExpressionOrColumn_init [s]) = Inr sc
             \<and> get_expressions_or_columns sc = [item] \<and> items = [item]) \<and>
      MergeTree_get_params esc mt =
        Inr ((case (rn, rp) of
                (Some n, Some p) \<Rightarrow> if n \<noteq> [] \<and> p \<noteq> [] then [PStr (esc p), PStr (esc n)] else []
              | _ \<Rightarrow> [])
             @ [PColumn dc] @ items
             @ [PTuple (get_expressions_or_columns kc),
                PInt (case g of None \<Rightarrow> 8192 | Some v \<Rightarrow> v)])"
proof -
  from att obtain dcol kc where
    dcol: "ColumnCollectionMixin_set_parent t (TableCol_init d) = Inr dcol" and
    kc: "ColumnCollectionMixin_set_parent t (KeysExpressionOrColumn_init ks) = Inr kc"
    by (auto simp: MergeTree_set_parent_def fresh_fields_def split: sum.splits)
  from TableCol_attached_get_column [OF dcol] obtain dc where
    dc: "table_c_getitem t d = Inr dc" "get_column dcol = Inr dc" by blast
  show ?thesis
  proof (cases smp)
    case None
    with att dcol kc have mt: "mt = (fresh_fields d ks smp g rn rp)\<lparr>date_col := dcol, key_cols := kc\<rparr>"
      by (auto simp: MergeTree_set_parent_def fresh_fields_def split: sum.splits)
    have "MergeTree_get_params esc mt =
        Inr ((case (replica_name mt, replica_table_path mt) of
                (Some n, Some p) \<Rightarrow> if n \<noteq> [] \<and> p \<noteq> [] then [PStr (esc p), PStr (esc n)] else []
              | _ \<Rightarrow> [])
             @ [PColumn dc] @ []
             @ [PTuple (get_expressions_or_columns (key_cols mt)),
                PInt (index_granularity mt)])"
      by (rule MergeTree_get_params_ok) (simp_all add: mt fresh_fields_def None ok dc)
    with dc kc None show ?thesis by (simp add: mt fresh_fields_def)
  next
    case (Some s)
    with att dcol kc obtain sc where
      sc: "ColumnCollectionMixin_set_parent t (KeysExpressionOrColumn_init [s]) = Inr sc" and
      mt: "mt = (fresh_fields d ks smp g rn rp)\<lparr>date_col := dcol, key_cols := kc, sampling := Some sc\<rparr>"
      by (auto simp: MergeTree_set_parent_def fresh_fields_def split: sum.splits)
    from single_attached_rendered [OF sc] obtain item where
      item: "get_expressions_or_columns sc = [item]" by blast
    have "MergeTree_get_params esc mt =
        Inr ((case (replica_name mt, replica_table_path mt) of
                (Some n, Some p) \<Rightarrow> if n \<noteq> [] \<and> p \<noteq> [] then [PStr (esc p), PStr (esc n)] else []
              | _ \<Rightarrow> [])
             @ [PColumn dc] @ [item]
             @ [PTuple (get_expressions_or_columns (key_cols mt)),
                PInt (index_granularity mt)])"
      by (rule MergeTree_get_params_ok) (simp_all add: mt fresh_fields_def Some ok dc item)
    with dc kc Some sc item show ?thesis by (simp add: mt fresh_fields_def)
  qed
qed

lemma new_MergeTree_eq:
  "new_MergeTree d ks smp g rn rp =
     (if truthy rn = truthy rp
      then Inr (new (MergeTree (fresh_fields d ks smp g rn rp)))
      else Inl (Exception ''Need both or no one [replica_path, replica_name]''))"
  by (simp add: new_MergeTree_def MergeTree_init_eq)

lemma set_parent_MergeTree:
  "set_parent t (new (MergeTree f)) = Inr e \<longleftrightarrow>
     (\<exists>mt. MergeTree_set_parent t f = Inr mt \<and> e = \<lparr>cls = MergeTree mt, table = Some t\<rparr>)"
  by (auto simp: set_parent_def Let_def Engine_set_parent_def new_def split: sum.splits)

lemma set_parent_CollapsingMergeTree:
  "set_parent t (new (CollapsingMergeTree f sc)) = Inr e \<longleftrightarrow>
     (\<exists>mt sc'. MergeTree_set_parent t f = Inr mt \<and>
        ColumnCollectionMixin_set_parent t sc = Inr sc' \<and>
        e = \<lparr>cls = CollapsingMergeTree mt sc', table = Some t\<rparr>)"
  by (auto simp: set_parent_def Let_def Engine_set_parent_def new_def split: sum.splits)

lemma set_parent_SummingMergeTree_None:
  "set_parent t (new (SummingMergeTree f None)) = Inr e \<longleftrightarrow>
     (\<exists>mt. MergeTree_set_parent t f = Inr mt \<and>
        e = \<lparr>cls = SummingMergeTree mt None, table = Some t\<rparr>)"
  by (auto simp: set_parent_def Let_def Engine_set_parent_def new_def split: sum.splits)

lemma set_parent_SummingMergeTree_Some:
  "set_parent t (new (SummingMergeTree f (Some sm))) = Inr e \<longleftrightarrow>
     (\<exists>mt sm'. MergeTree_set_parent t f = Inr mt \<and>
        ColumnCollectionMixin_set_parent t sm = Inr sm' \<and>
        e = \<lparr>cls = SummingMergeTree mt (Some sm'), table = Some t\<rparr>)"
  by (auto simp: set_parent_def Let_def Engine_set_parent_def new_def split: sum.splits)

lemma MergeTree_set_parent_keeps:
  assumes "MergeTree_set_parent t f = Inr mt"
  shows "replica_name mt = replica_name f"
    and "replica_table_path mt = replica_table_path f"
    and "index_granularity mt = index_granularity f"
  using assms by (auto simp: MergeTree_set_parent_def split: sum.splits option.splits)

lemma set_parent_keeps_name:
  assumes "set_parent t e = Inr e'"
  shows "name e' = name e"
proof (cases "cls e")
  case (MergeTree f)
  with assms show ?thesis
    by (auto simp: set_parent_def Let_def Engine_set_parent_def name_def MergeTree_name_def
        MergeTree_set_parent_keeps split: sum.splits)
next
  case (CollapsingMergeTree f sc)
  with assms show ?thesis
    by (auto simp: set_parent_def Let_def Engine_set_parent_def name_def MergeTree_name_def
        MergeTree_set_parent_keeps split: sum.splits)
next
  case (SummingMergeTree f sm)
  with assms show ?thesis
    by (auto simp: set_parent_def Let_def Engine_set_parent_def name_def MergeTree_name_def
        MergeTree_set_parent_keeps split: sum.splits option.splits)
qed (use assms in \<open>auto simp: set_parent_def Let_def Engine_set_parent_def name_def\<close>)

lemma new_MergeTree_name:
  assumes "new_MergeTree d ks smp g rn rp = Inr e0"
  shows "name e0 = (if truthy rn \<and> truthy rp then ''Replicated'' @ ''MergeTree'' else ''MergeTree'')"
  using assms
  by (auto simp: new_MergeTree_eq new_def name_def MergeTree_name_def fresh_fields_def
      split: if_splits)

lemma new_CollapsingMergeTree_eq:
  "new_CollapsingMergeTree d ks sc smp g =
     Inr (new (CollapsingMergeTree (fresh_fields d ks smp g None None) (TableCol_init sc)))"
  by (simp add: new_CollapsingMergeTree_def MergeTree_init_eq)

lemma new_SummingMergeTree_eq:
  "new_SummingMergeTree d ks cs smp g =
     Inr (new (SummingMergeTree (fresh_fields d ks smp g None None)
            (map_option KeysExpressionOrColumn_init cs)))"
  by (cases cs) (simp_all add: new_SummingMergeTree_def MergeTree_init_eq)

lemma new_CollapsingMergeTree_name:
  assumes "new_CollapsingMergeTree d ks sc smp g = Inr e1"
  shows "name e1 = ''CollapsingMergeTree''"
  using assms
  by (auto simp: new_CollapsingMergeTree_eq new_def name_def MergeTree_name_def fresh_fields_def)

lemma new_SummingMergeTree_name:
  assumes "new_SummingMergeTree d ks cs smp g = Inr e2"
  shows "name e2 = ''SummingMergeTree''"
  using assms
  by (auto simp: new_SummingMergeTree_eq new_def name_def MergeTree_name_def fresh_fields_def)

lemma attached_MergeTree_params:
  assumes ok: "truthy rn = truthy rp"
      and att: "set_parent t (new (MergeTree (fresh_fields d ks smp g rn rp))) = Inr e"
  shows "\<exists>dc kc items.
      table_c_getitem t d = Inr dc \<and>
      ColumnCollectionMixin_set_parent t (KeysExpressionOrColumn_init ks) = Inr kc \<and>
      (case smp of
         None \<Rightarrow> items = []
       | Some s \<Rightarrow>
           \<exists>sc item. ColumnCollectionMixin_set_parent t (KeysExpressionOrColumn_init [s]) = Inr sc
             \<and> get_expressions_or_columns sc = [item] \<and> items = [item]) \<and>
      params_of esc e =
        Inr ((case (rn, rp) of
                (Some n, Some p) \<Rightarrow> if n \<noteq> [] \<and> p \<noteq> [] then [PStr (esc p), PStr (esc n)] else []
              | _ \<Rightarrow> [])
             @ [PColumn dc] @ items
             @ [PTuple (get_expressions_or_columns kc),
                PInt (case g of None \<Rightarrow> 8192 | Some v \<Rightarrow> v)])"
proof -
  from att obtain mt where
    mt: "MergeTree_set_parent t (fresh_fields d ks smp g rn rp) = Inr mt" and
    e: "cls e = MergeTree mt"
    by (auto simp: set_parent_MergeTree)
  have "params_of esc e = MergeTree_get_params esc mt"
    by (simp add: params_of_def get_params_def e)
  with MergeTree_attached_params [OF ok mt, of esc] show ?thesis by simp
qed

lemma init_loop_eq:
  "init_loop (map extract_col_expression ks) (cols, exprs) =
     (cols @ names_in ks, exprs @ exprs_in ks)"
proof (induction ks arbitrary: cols exprs)
  case Nil
  show ?case by simp
next
  case (Cons k ks)
  then show ?case by (cases k) simp_all
qed

lemma KeysExpressionOrColumn_init_eq:
  "KeysExpressionOrColumn_init ks =
     \<lparr>pending_colargs = names_in ks, columns = [], expressions = exprs_in ks\<rparr>"
  by (simp add: KeysExpressionOrColumn_init_def extract_col_expression_collection_def
      init_loop_eq ColumnCollectionMixin_init_def)

lemma table_c_getitem_Inr:
  "table_c_getitem t n = Inr c \<longleftrightarrow> find (\<lambda>col. col_key col = n) (table_c t) = Some c"
  by (simp add: table_c_getitem_def split: option.splits)

lemma table_c_getitem_known:
  assumes "n \<in> col_key ` set (table_c t)"
  shows "\<exists>c. table_c_getitem t n = Inr c"
proof -
  from assms have "find (\<lambda>col. col_key col = n) (table_c t) \<noteq> None"
    by (auto simp: find_None_iff)
  then show ?thesis by (auto simp: table_c_getitem_Inr)
qed

lemma table_c_getitem_unknown:
  assumes "n \<notin> col_key ` set (table_c t)"
  shows "table_c_getitem t n = Inl (KeyError n)"
proof -
  from assms have "find (\<lambda>col. col_key col = n) (table_c t) = None"
    by (auto simp: find_None_iff)
  then show ?thesis by (simp add: table_c_getitem_def)
qed

lemma set_parent_loop_succeeds:
  "(\<exists>cols. set_parent_loop t ns cs = Inr cols) \<longleftrightarrow> set ns \<subseteq> col_key ` set (table_c t)"
proof (induction ns arbitrary: cs)
  case Nil
  show ?case by simp
next
  case (Cons n ns)
  show ?case
  proof (cases "n \<in> col_key ` set (table_c t)")
    case True
    then obtain c where "table_c_getitem t n = Inr c"
      using table_c_getitem_known by blast
    with True Cons.IH [of "ColumnCollection_add cs c"] show ?thesis by simp
  next
    case False
    then show ?thesis by (simp add: table_c_getitem_unknown)
  qed
qed

lemma ColumnCollectionMixin_set_parent_succeeds:
  "(\<exists>r. ColumnCollectionMixin_set_parent t self = Inr r) \<longleftrightarrow>
     set (pending_colargs self) \<subseteq> col_key ` set (table_c t)"
proof -
  have "(\<exists>r. ColumnCollectionMixin_set_parent t self = Inr r) \<longleftrightarrow>
        (\<exists>cols. set_parent_loop t (pending_colargs self) (columns self) = Inr cols)"
    by (auto simp: ColumnCollectionMixin_set_parent_def split: sum.splits)
  then show ?thesis by (simp add: set_parent_loop_succeeds)
qed

lemma MergeTree_set_parent_succeeds:
  "(\<exists>mt. MergeTree_set_parent t (fresh_fields d ks smp g rn rp) = Inr mt) \<longleftrightarrow>
     set (d # names_in ks @ (case smp of None \<Rightarrow> [] | Some s \<Rightarrow> names_in [s]))
       \<subseteq> col_key ` set (table_c t)"
proof -
  have d: "(\<exists>r. ColumnCollectionMixin_set_parent t (TableCol_init d) = Inr r) \<longleftrightarrow>
      d \<in> col_key ` set (table_c t)"
    by (simp add: ColumnCollectionMixin_set_parent_succeeds TableCol_init_def
        ColumnCollectionMixin_init_def)
  have k: "(\<exists>r. ColumnCollectionMixin_set_parent t (KeysExpressionOrColumn_init xs) = Inr r) \<longleftrightarrow>
      set (names_in xs) \<subseteq> col_key ` set (table_c t)" for xs
    by (simp add: ColumnCollectionMixin_set_parent_succeeds KeysExpressionOrColumn_init_eq)
  show ?thesis
  proof (cases smp)
    case None
    have "(\<exists>mt. MergeTree_set_parent t (fresh_fields d ks smp g rn rp) = Inr mt) \<longleftrightarrow>
        (\<exists>r. ColumnCollectionMixin_set_parent t (TableCol_init d) = Inr r) \<and>
        (\<exists>r. ColumnCollectionMixin_set_parent t (KeysExpressionOrColumn_init ks) = Inr r)"
      by (auto simp: MergeTree_set_parent_def fresh_fields_def None split: sum.splits)
    then show ?thesis by (simp add: d k None)
  next
    case (Some s)
    have "(\<exists>mt. MergeTree_set_parent t (fresh_fields d ks smp g rn rp) = Inr mt) \<longleftrightarrow>
        (\<exists>r. ColumnCollectionMixin_set_parent t (TableCol_init d) = Inr r) \<and>
        (\<exists>r. ColumnCollectionMixin_set_parent t (KeysExpressionOrColumn_init ks) = Inr r) \<and>
        (\<exists>r. ColumnCollectionMixin_set_parent t (KeysExpressionOrColumn_init [s]) = Inr r)"
      by (auto simp: MergeTree_set_parent_def fresh_fields_def Some split: sum.splits)
    then show ?thesis by (simp add: d k Some)
  qed
qed

lemma new_MergeTree_attaches:
  assumes "new_MergeTree d ks smp g rn rp = Inr e0"
  shows "(\<exists>e. set_parent t e0 = Inr e) \<longleftrightarrow>
     set (d # names_in ks @ (case smp of None \<Rightarrow> [] | Some s \<Rightarrow> names_in [s]))
       \<subseteq> col_key ` set (table_c t)"
proof -
  from assms have e0: "e0 = new (MergeTree (fresh_fields d ks smp g rn rp))"
    by (auto simp: new_MergeTree_eq split: if_splits)
  have "(\<exists>e. set_parent t e0 = Inr e) \<longleftrightarrow>
      (\<exists>mt. MergeTree_set_parent t (fresh_fields d ks smp g rn rp) = Inr mt)"
    unfolding e0 by (auto simp: set_parent_MergeTree)
  then show ?thesis by (simp only: MergeTree_set_parent_succeeds)
qed

lemma attached_MergeTree_params_exists:
  assumes e0: "new_MergeTree d ks smp g rn rp = Inr e0"
      and att: "set_parent t e0 = Inr e"
  shows "\<exists>mt base. cls e = MergeTree mt \<and> MergeTree_get_params esc mt = Inr base \<and>
           params_of esc e = Inr base \<and>
           MergeTree_set_parent t (fresh_fields d ks smp g rn rp) = Inr mt"
proof -
  from e0 have ok: "truthy rn = truthy rp"
    and e0': "e0 = new (MergeTree (fresh_fields d ks smp g rn rp))"
    by (auto simp: new_MergeTree_eq split: if_splits)
  from att e0' obtain mt where
    mt: "MergeTree_set_parent t (fresh_fields d ks smp g rn rp) = Inr mt" and
    e: "cls e = MergeTree mt"
    by (auto simp: set_parent_MergeTree)
  from MergeTree_attached_params [OF ok mt, of esc] obtain base where
    b: "MergeTree_get_params esc mt = Inr base" by blast
  then have "params_of esc e = Inr base"
    by (simp add: params_of_def get_params_def e)
  with e b mt show ?thesis by blast
qed

lemma new_CollapsingMergeTree_attaches:
  assumes "new_CollapsingMergeTree d ks sc smp g = Inr e0"
  shows "(\<exists>e. set_parent t e0 = Inr e) \<longleftrightarrow>
     set (d # names_in ks @ (case smp of None \<Rightarrow> [] | Some s \<Rightarrow> names_in [s]) @ [sc])
       \<subseteq> col_key ` set (table_c t)"
proof -
  from assms have e0:
    "e0 = new (CollapsingMergeTree (fresh_fields d ks smp g None None) (TableCol_init sc))"
    by (simp add: new_CollapsingMergeTree_eq)
  have "(\<exists>e. set_parent t e0 = Inr e) \<longleftrightarrow>
      (\<exists>mt. MergeTree_set_parent t (fresh_fields d ks smp g None None) = Inr mt) \<and>
      (\<exists>r. ColumnCollectionMixin_set_parent t (TableCol_init sc) = Inr r)"
    unfolding e0 by (auto simp: set_parent_CollapsingMergeTree)
  then show ?thesis
    by (auto simp: MergeTree_set_parent_succeeds ColumnCollectionMixin_set_parent_succeeds
        TableCol_init_def ColumnCollectionMixin_init_def)
qed

lemma new_SummingMergeTree_attaches:
  assumes "new_SummingMergeTree d ks cs smp g = Inr e0"
  shows "(\<exists>e. set_parent t e0 = Inr e) \<longleftrightarrow>
     set (d # names_in ks @ (case smp of None \<Rightarrow> [] | Some s \<Rightarrow> names_in [s])
            @ (case cs of None \<Rightarrow> [] | Some xs \<Rightarrow> names_in xs))
       \<subseteq> col_key ` set (table_c t)"
proof (cases cs)
  case None
  with assms have e0: "e0 = new (SummingMergeTree (fresh_fields d ks smp g None None) None)"
    by (simp add: new_SummingMergeTree_eq)
  have "(\<exists>e. set_parent t e0 = Inr e) \<longleftrightarrow>
      (\<exists>mt. MergeTree_set_parent t (fresh_fields d ks smp g None None) = Inr mt)"
    unfolding e0 by (auto simp: set_parent_SummingMergeTree_None)
  then show ?thesis by (simp add: MergeTree_set_parent_succeeds None)
next
  case (Some xs)
  with assms have e0: "e0 = new (SummingMergeTree (fresh_fields d ks smp g None None)
      (Some (KeysExpressionOrColumn_init xs)))"
    by (simp add: new_SummingMergeTree_eq)
  have "(\<exists>e. set_parent t e0 = Inr e) \<longleftrightarrow>
      (\<exists>mt. MergeTree_set_parent t (fresh_fields d ks smp g None None) = Inr mt) \<and>
      (\<exists>r. ColumnCollectionMixin_set_parent t (KeysExpressionOrColumn_init xs) = Inr r)"
    unfolding e0 by (auto simp: set_parent_SummingMergeTree_Some)
  then show ?thesis
    by (simp add: MergeTree_set_parent_succeeds ColumnCollectionMixin_set_parent_succeeds
        KeysExpressionOrColumn_init_eq Some)
qed

lemma params_nonempty_last:
  assumes e0: "new_MergeTree d ks smp g rn rp = Inr e0"
      and att: "set_parent t e0 = Inr e"
  shows "\<exists>dc front. table_c_getitem t d = Inr dc \<and>
     params_of esc e =
       Inr ((case (rn, rp) of
                (Some n, Some p) \<Rightarrow> if n \<noteq> [] \<and> p \<noteq> [] then [PStr (esc p), PStr (esc n)] else []
              | _ \<Rightarrow> [])
            @ PColumn dc # front @ [PInt (case g of None \<Rightarrow> 8192 | Some v \<Rightarrow> v)])"
proof -
  from e0 have ok: "truthy rn = truthy rp"
    and e0': "e0 = new (MergeTree (fresh_fields d ks smp g rn rp))"
    by (auto simp: new_MergeTree_eq split: if_splits)
  from attached_MergeTree_params [OF ok att [unfolded e0'], of esc]
  obtain dc kc items where
    "table_c_getitem t d = Inr dc"
    "params_of esc e =
        Inr ((case (rn, rp) of
                (Some n, Some p) \<Rightarrow> if n \<noteq> [] \<and> p \<noteq> [] then [PStr (esc p), PStr (esc n)] else []
              | _ \<Rightarrow> [])
             @ [PColumn dc] @ items
             @ [PTuple (get_expressions_or_columns kc),
                PInt (case g of None \<Rightarrow> 8192 | Some v \<Rightarrow> v)])"
    by blast
  then show ?thesis
    by (intro exI [of _ dc] exI [of _ "items @ [PTuple (get_expressions_or_columns kc)]"]) simp
qed

lemma unreplicated_params_head:
  assumes e0: "new_MergeTree d ks smp g rn rp = Inr e0"
      and un: "\<not> truthy rn"
      and att: "set_parent t e0 = Inr e"
  shows "\<exists>dc rest. table_c_getitem t d = Inr dc \<and> params_of esc e = Inr (PColumn dc # rest)"
proof -
  from e0 un have "\<not> truthy rp"
    by (auto simp: new_MergeTree_eq split: if_splits)
  with un have "(case (rn, rp) of
                (Some n, Some p) \<Rightarrow> if n \<noteq> [] \<and> p \<noteq> [] then [PStr (esc p), PStr (esc n)] else []
              | _ \<Rightarrow> []) = []"
    by (cases rn; cases rp) auto
  with params_nonempty_last [OF e0 att, of esc] show ?thesis by auto
qed

lemma MergeTree_get_params_unreplicated:
  assumes "\<not> truthy (replica_name f)" and "\<not> truthy (replica_name f')"
      and "date_col f = date_col f'" and "key_cols f = key_cols f'"
      and "sampling f = sampling f'" and "index_granularity f = index_granularity f'"
  shows "MergeTree_get_params esc f = MergeTree_get_params esc' f'"
  using assms
  by (simp add: MergeTree_get_params_def cong: sum.case_cong option.case_cong list.case_cong)

lemma MergeTree_set_parent_children:
  assumes "MergeTree_set_parent t f = Inr mt" and "MergeTree_set_parent t f' = Inr mt'"
      and "date_col f = date_col f'" and "key_cols f = key_cols f'"
      and "sampling f = sampling f'"
  shows "date_col mt = date_col mt' \<and> key_cols mt = key_cols mt' \<and> sampling mt = sampling mt'"
  using assms by (auto simp: MergeTree_set_parent_def split: sum.splits option.splits)

lemma unreplicated_fields_params_head:
  assumes "MergeTree_set_parent t (fresh_fields d ks smp g None None) = Inr mt"
  shows "\<exists>dc rest. table_c_getitem t d = Inr dc \<and>
           MergeTree_get_params esc mt = Inr (PColumn dc # rest)"
proof -
  have "truthy None = truthy None" by simp
  from MergeTree_attached_params [OF this assms, of esc] show ?thesis by auto
qed

lemma unattached_get_column: "get_column (TableCol_init n) = Inl IndexError"
  by (simp add: get_column_def TableCol_init_def ColumnCollectionMixin_init_def)

lemma unattached_MergeTree_get_params:
  assumes "truthy rn = truthy rp"
  shows "MergeTree_get_params esc (fresh_fields d ks smp g rn rp) = Inl IndexError"
proof -
  have f: "replica_name (fresh_fields d ks smp g rn rp) = rn"
    "replica_table_path (fresh_fields d ks smp g rn rp) = rp"
    "get_column (date_col (fresh_fields d ks smp g rn rp)) = Inl IndexError"
    by (simp_all add: fresh_fields_def unattached_get_column)
  show ?thesis
    unfolding MergeTree_get_params_def f replication_entries [OF assms] by simp
qed

lemma length_zip_longest: "length (zip_longest xs ys) = max (length xs) (length ys)"
  by (induction xs ys rule: zip_longest.induct) simp_all

lemma length_ColumnCollection_add: "length (ColumnCollection_add cols c) \<le> Suc (length cols)"
  by (simp add: ColumnCollection_add_def)

lemma set_parent_loop_length:
  "set_parent_loop t ns cs = Inr cols \<Longrightarrow> length cols \<le> length cs + length ns"
proof (induction ns arbitrary: cs)
  case Nil
  then show ?case by simp
next
  case (Cons n ns)
  from Cons.prems obtain c where
    c: "table_c_getitem t n = Inr c" and
    r: "set_parent_loop t ns (ColumnCollection_add cs c) = Inr cols"
    by (auto split: sum.splits)
  from Cons.IH [OF r] length_ColumnCollection_add [of cs c] show ?case by simp
qed

lemma length_names_in: "length (names_in ks) \<le> length ks"
  by (induction ks rule: names_in.induct) simp_all

lemma length_exprs_in: "length (exprs_in ks) = length ks"
  by (induction ks rule: exprs_in.induct) simp_all

lemma rendered_length:
  assumes "rendered_after_attach t ks = Inr items"
  shows "length items = length ks"
proof -
  from assms obtain cols where
    l: "set_parent_loop t (names_in ks) [] = Inr cols" and
    i: "items = map expr_or_column (zip_longest (exprs_in ks) cols)"
    by (auto simp: rendered_after_attach_def ColumnCollectionMixin_set_parent_def
        KeysExpressionOrColumn_init_eq get_expressions_or_columns_def split: sum.splits)
  from set_parent_loop_length [OF l] length_names_in [of ks]
  have "length cols \<le> length ks" by simp
  then show ?thesis by (simp add: i length_zip_longest length_exprs_in)
qed

lemma zip_longest_nth_left:
  "i < length xs \<Longrightarrow>
     zip_longest xs ys ! i = (Some (xs ! i), if i < length ys then Some (ys ! i) else None)"
proof (induction xs ys arbitrary: i rule: zip_longest.induct)
  case 1
  then show ?case by simp
next
  case (2 x xs)
  then show ?case by (cases i) simp_all
next
  case (3 y ys)
  then show ?case by simp
next
  case (4 x xs y ys)
  then show ?case by (cases i) simp_all
qed

lemma exprs_in_nth_Text:
  "i < length ks \<Longrightarrow> ks ! i = Text x \<Longrightarrow> exprs_in ks ! i = TextClause x"
proof (induction ks arbitrary: i rule: exprs_in.induct)
  case 1
  then show ?case by simp
next
  case (2 n ks)
  then show ?case by (cases i) simp_all
next
  case (3 y ks)
  then show ?case by (cases i) simp_all
qed

lemma rendered_expression_positions:
  assumes r: "rendered_after_attach t ks = Inr items"
      and i: "i < length ks" and x: "ks ! i = Text x"
  shows "items ! i = TextClause x"
proof -
  from r obtain cols where
    it: "items = map expr_or_column (zip_longest (exprs_in ks) cols)"
    by (auto simp: rendered_after_attach_def ColumnCollectionMixin_set_parent_def
        KeysExpressionOrColumn_init_eq get_expressions_or_columns_def split: sum.splits)
  from i have il: "i < length (zip_longest (exprs_in ks) cols)"
    by (simp add: length_zip_longest length_exprs_in)
  from i have ie: "i < length (exprs_in ks)" by (simp add: length_exprs_in)
  show ?thesis
    unfolding it
    by (simp add: nth_map [OF il] zip_longest_nth_left [OF ie] exprs_in_nth_Text [OF i x])
qed

lemma table_c_getitem_key:
  assumes "table_c_getitem t n = Inr c"
  shows "col_key c = n"
  using assms by (auto simp: table_c_getitem_Inr find_Some_iff)

lemma set_parent_loop_distinct:
  assumes "distinct ns" and "set ns \<inter> col_key ` set cs = {}"
      and "set_parent_loop t ns cs = Inr cols"
  shows "\<exists>new. cols = cs @ new \<and> list_all2 (\<lambda>n c. table_c_getitem t n = Inr c) ns new"
  using assms
proof (induction ns arbitrary: cs)
  case Nil
  then show ?case by simp
next
  case (Cons n ns)
  from Cons.prems(3) obtain c where
    c: "table_c_getitem t n = Inr c" and
    r: "set_parent_loop t ns (ColumnCollection_add cs c) = Inr cols"
    by (auto split: sum.splits)
  from table_c_getitem_key [OF c] Cons.prems(2)
  have add: "ColumnCollection_add cs c = cs @ [c]"
    by (auto simp: ColumnCollection_add_def)
  from Cons.prems(1,2) table_c_getitem_key [OF c]
  have "distinct ns" "set ns \<inter> col_key ` set (cs @ [c]) = {}" by auto
  from Cons.IH [OF this r [unfolded add]] obtain new where
    "cols = (cs @ [c]) @ new" "list_all2 (\<lambda>n c. table_c_getitem t n = Inr c) ns new"
    by blast
  with c show ?case by (intro exI [of _ "c # new"]) simp
qed

lemma names_in_names_first [simp]: "names_in (map Name ns @ map Text xs) = ns"
  by (induction ns) (simp_all, induction xs, simp_all)

lemma exprs_in_names_first [simp]:
  "exprs_in (map Name ns @ map Text xs) = map PStr ns @ map TextClause xs"
  by (induction ns) (simp_all, induction xs, simp_all)

lemma zip_longest_names_first:
  "length cs = length ns \<Longrightarrow>
     map expr_or_column (zip_longest (map PStr ns @ map TextClause xs) cs) =
       map PColumn cs @ map TextClause xs"
proof (induction ns arbitrary: cs)
  case Nil
  then show ?case by (induction xs) simp_all
next
  case (Cons n ns)
  then show ?case by (cases cs) simp_all
qed

lemma rendered_names_first:
  assumes d: "distinct ns"
      and r: "rendered_after_attach t (map Name ns @ map Text xs) = Inr items"
  shows "\<exists>cols. list_all2 (\<lambda>n c. table_c_getitem t n = Inr c) ns cols \<and>
           items = map PColumn cols @ map TextClause xs"
proof -
  from r obtain cols where
    l: "set_parent_loop t ns [] = Inr cols" and
    i: "items = map expr_or_column (zip_longest (map PStr ns @ map TextClause xs) cols)"
    by (auto simp: rendered_after_attach_def ColumnCollectionMixin_set_parent_def
        KeysExpressionOrColumn_init_eq get_expressions_or_columns_def split: sum.splits)
  from set_parent_loop_distinct [OF d _ l]
  have a: "list_all2 (\<lambda>n c. table_c_getitem t n = Inr c) ns cols" by simp
  then have "length cols = length ns" by (simp add: list_all2_lengthD)
  from zip_longest_names_first [OF this] a i show ?thesis by auto
qed

subsection \<open>The store\<close>

text \<open>Changing a list in place does change the store: keeping it is not automatic.\<close>

lemma list_append_changes_store:
  "\<not> unchanged [ListObj vs] (snd (list_append 0 v [ListObj vs]))"
  by (simp add: list_append_def lookup_def unchanged_def)

lemma unchanged_refl [simp]: "unchanged h h"
  by (simp add: unchanged_def)

lemma unchanged_append [simp]: "unchanged h (h @ xs)"
  by (simp add: unchanged_def)

lemma unchanged_trans: "unchanged h h' \<Longrightarrow> unchanged h' h'' \<Longrightarrow> unchanged h h''"
proof -
  assume a: "unchanged h h'" and b: "unchanged h' h''"
  from a b have l: "length h \<le> length h''" by (simp add: unchanged_def)
  have "take (length h) h'' = take (length h) (take (length h') h'')"
    using a by (simp add: unchanged_def min_def)
  also have "\<dots> = take (length h) h'" using b by (simp add: unchanged_def)
  also have "\<dots> = h" using a by (simp add: unchanged_def)
  finally show ?thesis using l by (simp add: unchanged_def)
qed

lemma unchanged_update:
  assumes "unchanged h0 h" and "length h0 \<le> a"
  shows "unchanged h0 (h[a := x])"
  using assms by (simp add: unchanged_def)

lemma unchanged_lookup:
  assumes "unchanged h h'" and "lookup h a = Some x"
  shows "lookup h' a = Some x"
proof -
  from assms(2) have a: "a < length h" and x: "h ! a = x"
    by (auto simp: lookup_def split: if_splits)
  from assms(1) have "take (length h) h' ! a = h ! a" by (simp add: unchanged_def)
  with a have "h' ! a = h ! a" by simp
  with a x assms(1) show ?thesis by (simp add: lookup_def unchanged_def)
qed

lemma unchanged_nth:
  assumes "unchanged h h'" and "a < length h"
  shows "h' ! a = h ! a"
proof -
  from assms(1) have "take (length h) h' ! a = h ! a" by (simp add: unchanged_def)
  with assms(2) show ?thesis by simp
qed

lemma unchanged_append_iff: "unchanged h h' \<longleftrightarrow> (\<exists>new. h' = h @ new)"
proof
  assume "unchanged h h'"
  then have "h' = h @ drop (length h) h'"
    by (metis append_take_drop_id unchanged_def)
  then show "\<exists>new. h' = h @ new" ..
next
  assume "\<exists>new. h' = h @ new"
  then show "unchanged h h'" by auto
qed

lemma frames_ret: "Q x \<Longrightarrow> frames h0 (ret x) Q"
  by (simp add: frames_def ret_def)

lemma frames_raise: "frames h0 (raise f) Q"
  by (simp add: frames_def raise_def)

lemma frames_lift: "(\<And>x. r = Inr x \<Longrightarrow> Q x) \<Longrightarrow> frames h0 (lift r) Q"
  by (cases r) (simp_all add: lift_def frames_ret frames_raise)

lemma frames_bind:
  assumes m: "frames h0 m Q" and k: "\<And>x. Q x \<Longrightarrow> frames h0 (k x) R"
  shows "frames h0 (bind m k) R"
  unfolding frames_def
proof (intro allI impI)
  fix h assume u: "unchanged h0 h"
  obtain r h' where mh: "m h = (r, h')" by (cases "m h")
  from m u mh have u': "unchanged h0 h'" and q: "case r of Inl _ \<Rightarrow> True | Inr x \<Rightarrow> Q x"
    by (auto simp: frames_def)
  show "unchanged h0 (snd (bind m k h)) \<and>
        (case fst (bind m k h) of Inl _ \<Rightarrow> True | Inr x \<Rightarrow> R x)"
  proof (cases r)
    case (Inl f)
    with mh u' show ?thesis by (simp add: bind_def)
  next
    case (Inr x)
    with q have "Q x" by simp
    from k [OF this] u' have "unchanged h0 (snd (k x h')) \<and>
        (case fst (k x h') of Inl _ \<Rightarrow> True | Inr y \<Rightarrow> R y)"
      by (simp add: frames_def)
    with mh Inr show ?thesis by (simp add: bind_def)
  qed
qed

lemma frames_weaken:
  assumes "frames h0 m Q" and "\<And>x. Q x \<Longrightarrow> Q' x"
  shows "frames h0 m Q'"
  using assms by (auto simp: frames_def split: sum.splits)

lemma frames_new_list: "frames h0 (new_list vs) (\<lambda>a. length h0 \<le> a)"
  by (auto simp: frames_def new_list_def unchanged_def)

lemma frames_list_append:
  assumes "length h0 \<le> xs"
  shows "frames h0 (list_append xs v) (\<lambda>_. True)"
  using assms
  by (auto simp: frames_def list_append_def unchanged_update split: option.splits object.splits)

lemma frames_list_extend:
  assumes "length h0 \<le> xs"
  shows "frames h0 (list_extend xs ws) (\<lambda>_. True)"
  using assms
  by (auto simp: frames_def list_extend_def unchanged_update split: option.splits object.splits)

lemma frames_read_columns: "frames h0 (read_columns a) (\<lambda>_. True)"
  by (auto simp: frames_def read_columns_def split: option.splits object.splits)

lemma frames_read_expressions: "frames h0 (read_expressions a) (\<lambda>_. True)"
  by (auto simp: frames_def read_expressions_def split: option.splits object.splits)

lemma frames_read_engine: "frames h0 (read_engine a) (\<lambda>_. True)"
  by (auto simp: frames_def read_engine_def split: option.splits object.splits)

lemma frames_get_column_at: "frames h0 (get_column_at a) (\<lambda>_. True)"
  unfolding get_column_at_def
  by (rule frames_bind [OF frames_read_columns])
    (simp add: frames_ret frames_raise split: list.splits)

lemma frames_get_expressions_or_columns_at:
  "frames h0 (get_expressions_or_columns_at a) (\<lambda>_. True)"
  unfolding get_expressions_or_columns_at_def
  by (intro frames_bind [OF frames_read_expressions] frames_bind [OF frames_read_columns]
      frames_ret TrueI)

lemma frames_MergeTree_get_params_at:
  "frames h0 (MergeTree_get_params_at esc self) (\<lambda>a. length h0 \<le> a)"
  unfolding MergeTree_get_params_at_def
proof (rule frames_bind [OF frames_new_list])
  fix params assume p: "length h0 \<le> params"
  have app: "frames h0 (list_append params v) (\<lambda>_. True)" for v
    using p by (rule frames_list_append)
  have rep: "frames h0
      (if truthy (replica_name_val self)
       then bind (lift (map_raise (escape_string esc)
                          [replica_table_path_val self, replica_name_val self]))
              (\<lambda>escaped. list_extend params escaped)
       else ret ()) (\<lambda>_. True)"
    by (simp add: frames_ret frames_bind [OF frames_lift [of _ "\<lambda>_. True"]]
        frames_list_extend [OF p])
  have smp: "frames h0
      (case sampling_ref self of
         None \<Rightarrow> ret ()
       | Some s \<Rightarrow>
           bind (get_expressions_or_columns_at s) (\<lambda>items.
             case items of
               [] \<Rightarrow> raise (Raised IndexError)
             | x # _ \<Rightarrow> list_append params x)) (\<lambda>_. True)"
  proof (cases "sampling_ref self")
    case None
    then show ?thesis by (simp add: frames_ret)
  next
    case (Some s)
    have "frames h0
        (bind (get_expressions_or_columns_at s) (\<lambda>items.
           case items of
             [] \<Rightarrow> raise (Raised IndexError)
           | x # _ \<Rightarrow> list_append params x)) (\<lambda>_. True)"
      by (rule frames_bind [OF frames_get_expressions_or_columns_at])
        (simp add: frames_raise app split: list.splits)
    with Some show ?thesis by simp
  qed
  show "frames h0
     (bind (if truthy (replica_name_val self)
            then bind (lift (map_raise (escape_string esc)
                               [replica_table_path_val self, replica_name_val self]))
                   (\<lambda>escaped. list_extend params escaped)
            else ret ()) (\<lambda>_.
      bind (get_column_at (date_col_ref self)) (\<lambda>c.
      bind (list_append params (PColumn c)) (\<lambda>_.
      bind (case sampling_ref self of
              None \<Rightarrow> ret ()
            | Some s \<Rightarrow>
                bind (get_expressions_or_columns_at s) (\<lambda>items.
                  case items of
                    [] \<Rightarrow> raise (Raised IndexError)
                  | x # _ \<Rightarrow> list_append params x)) (\<lambda>_.
      bind (get_expressions_or_columns_at (key_cols_ref self)) (\<lambda>key.
      bind (list_append params (PTuple key)) (\<lambda>_.
      bind (list_append params (PInt (index_granularity_val self))) (\<lambda>_.
      ret params))))))))
     (\<lambda>a. length h0 \<le> a)"
    by (intro frames_bind [OF rep] frames_bind [OF frames_get_column_at]
        frames_bind [OF app] frames_bind [OF smp]
        frames_bind [OF frames_get_expressions_or_columns_at] frames_ret p)
qed

lemma frames_get_params_at: "frames h0 (get_params_at esc self) (\<lambda>a. length h0 \<le> a)"
  unfolding get_params_at_def
proof (rule frames_bind [OF frames_read_engine])
  fix k
  show "frames h0
     (case k of
        EngineR \<Rightarrow> raise (Raised NotImplementedError)
      | MergeTreeR mt \<Rightarrow> MergeTree_get_params_at esc mt
      | CollapsingMergeTreeR mt sign_col \<Rightarrow>
          bind (MergeTree_get_params_at esc mt) (\<lambda>params.
          bind (get_column_at sign_col) (\<lambda>c.
          bind (list_append params (PColumn c)) (\<lambda>_.
          ret params)))
      | SummingMergeTreeR mt summing_cols \<Rightarrow>
          bind (MergeTree_get_params_at esc mt) (\<lambda>params.
          bind (case summing_cols of
                  None \<Rightarrow> ret ()
                | Some sm \<Rightarrow>
                    bind (get_expressions_or_columns_at sm) (\<lambda>items.
                      list_append params (PTuple items))) (\<lambda>_.
          ret params))
      | BufferR b \<Rightarrow>
          new_list [PStr (database b), PStr (table_name b), PInt (num_layers b),
                    PInt (min_time b), PInt (max_time b), PInt (min_rows b),
                    PInt (max_rows b), PInt (min_bytes b), PInt (max_bytes b)]
      | MemoryR \<Rightarrow> new_list []
      | MergeR db regexp \<Rightarrow> new_list [PStr db, PStr (esc regexp)])
     (\<lambda>a. length h0 \<le> a)"
  proof (cases k)
    case EngineR
    then show ?thesis by (simp add: frames_raise)
  next
    case (MergeTreeR mt)
    then show ?thesis by (simp add: frames_MergeTree_get_params_at)
  next
    case (CollapsingMergeTreeR mt sign_col)
    have "frames h0
        (bind (MergeTree_get_params_at esc mt) (\<lambda>params.
         bind (get_column_at sign_col) (\<lambda>c.
         bind (list_append params (PColumn c)) (\<lambda>_.
         ret params)))) (\<lambda>a. length h0 \<le> a)"
      by (rule frames_bind [OF frames_MergeTree_get_params_at])
        (intro frames_bind [OF frames_get_column_at] frames_bind [OF frames_list_append]
          frames_ret)
    with CollapsingMergeTreeR show ?thesis by simp
  next
    case (SummingMergeTreeR mt summing_cols)
    have "frames h0
        (bind (MergeTree_get_params_at esc mt) (\<lambda>params.
         bind (case summing_cols of
                 None \<Rightarrow> ret ()
               | Some sm \<Rightarrow>
                   bind (get_expressions_or_columns_at sm) (\<lambda>items.
                     list_append params (PTuple items))) (\<lambda>_.
         ret params))) (\<lambda>a. length h0 \<le> a)"
    proof (rule frames_bind [OF frames_MergeTree_get_params_at])
      fix params assume p: "length h0 \<le> params"
      have "frames h0
          (case summing_cols of
             None \<Rightarrow> ret ()
           | Some sm \<Rightarrow>
               bind (get_expressions_or_columns_at sm) (\<lambda>items.
                 list_append params (PTuple items))) (\<lambda>_. True)"
      proof (cases summing_cols)
        case None
        then show ?thesis by (simp add: frames_ret)
      next
        case (Some sm)
        have "frames h0
            (bind (get_expressions_or_columns_at sm) (\<lambda>items.
               list_append params (PTuple items))) (\<lambda>_. True)"
          by (rule frames_bind [OF frames_get_expressions_or_columns_at])
            (rule frames_list_append [OF p])
        with Some show ?thesis by simp
      qed
      then show "frames h0
          (bind (case summing_cols of
                   None \<Rightarrow> ret ()
                 | Some sm \<Rightarrow>
                     bind (get_expressions_or_columns_at sm) (\<lambda>items.
                       list_append params (PTuple items))) (\<lambda>_.
           ret params)) (\<lambda>a. length h0 \<le> a)"
        by (rule frames_bind) (rule frames_ret, rule p)
    qed
    with SummingMergeTreeR show ?thesis by simp
  next
    case (BufferR b)
    then show ?thesis by (simp add: frames_new_list)
  next
    case MemoryR
    then show ?thesis by (simp add: frames_new_list)
  next
    case (MergeR db regexp)
    then show ?thesis by (simp add: frames_new_list)
  qed
qed

lemma get_params_at_unchanged:
  assumes "get_params_at esc self h = (r, h')"
  shows "unchanged h h'" and "\<And>p. r = Inr p \<Longrightarrow> length h \<le> p"
  using frames_get_params_at [of h esc self] assms
  by (auto simp: frames_def dest!: spec [of _ h])

lemma holds_mixin_unchanged:
  "unchanged h h' \<Longrightarrow> holds_mixin h p c self \<Longrightarrow> holds_mixin h' p c self"
  by (simp add: holds_mixin_def unchanged_lookup)

lemma holds_TableCol_unchanged:
  assumes "unchanged h h'" and "holds_TableCol h a self"
  shows "holds_TableCol h' a self"
proof -
  from assms(2) obtain p c where
    a: "lookup h a = Some (TableColObj p c)" and m: "holds_mixin h p c self"
    by (auto simp: holds_TableCol_def split: option.splits object.splits)
  from unchanged_lookup [OF assms(1) a] holds_mixin_unchanged [OF assms(1) m]
  show ?thesis by (simp add: holds_TableCol_def)
qed

lemma holds_Keys_unchanged:
  assumes "unchanged h h'" and "holds_Keys h a self"
  shows "holds_Keys h' a self"
proof -
  from assms(2) obtain p c x where
    a: "lookup h a = Some (KeysExpressionOrColumnObj p c x)" and
    m: "holds_mixin h p c self" and
    x: "lookup h x = Some (ListObj (expressions self))"
    by (auto simp: holds_Keys_def split: option.splits object.splits)
  from unchanged_lookup [OF assms(1) a] holds_mixin_unchanged [OF assms(1) m]
    unchanged_lookup [OF assms(1) x]
  show ?thesis by (simp add: holds_Keys_def)
qed

lemma holds_Keys_option_unchanged:
  "unchanged h h' \<Longrightarrow> holds_Keys_option h a self \<Longrightarrow> holds_Keys_option h' a self"
  by (auto simp: holds_Keys_option_def holds_Keys_unchanged split: option.splits)

lemma holds_MergeTree_unchanged:
  "unchanged h h' \<Longrightarrow> holds_MergeTree h r self \<Longrightarrow> holds_MergeTree h' r self"
  by (simp add: holds_MergeTree_def holds_TableCol_unchanged holds_Keys_unchanged
      holds_Keys_option_unchanged)

lemma holds_class_unchanged:
  "unchanged h h' \<Longrightarrow> holds_class h k c \<Longrightarrow> holds_class h' k c"
  by (induction h k c rule: holds_class.induct)
    (simp_all add: holds_MergeTree_unchanged holds_TableCol_unchanged
      holds_Keys_option_unchanged)

lemma holds_engine_unchanged:
  assumes "unchanged h h'" and "holds_engine h a e"
  shows "holds_engine h' a e"
proof -
  from assms(2) obtain k where
    a: "lookup h a = Some (EngineObj k (table e))" and c: "holds_class h k (cls e)"
    by (auto simp: holds_engine_def split: option.splits object.splits)
  from unchanged_lookup [OF assms(1) a] holds_class_unchanged [OF assms(1) c]
  show ?thesis by (simp add: holds_engine_def)
qed

lemma run_list_append:
  "list_append (length h) v (h @ [ListObj vs]) = (Inr (), h @ [ListObj (vs @ [v])])"
  by (simp add: list_append_def lookup_def)

lemma run_list_extend:
  "list_extend (length h) ws (h @ [ListObj vs]) = (Inr (), h @ [ListObj (vs @ ws)])"
  by (simp add: list_extend_def lookup_def)

lemma run_get_column_at:
  assumes "holds_TableCol h a self"
  shows "get_column_at a h =
     (case get_column self of Inl e \<Rightarrow> Inl (Raised e) | Inr c \<Rightarrow> Inr c, h)"
  using assms
  by (auto simp: holds_TableCol_def holds_mixin_def get_column_at_def read_columns_def
      bind_def ret_def raise_def get_column_def split: option.splits object.splits list.splits)

lemma run_get_expressions_or_columns_at:
  assumes "holds_Keys h a self"
  shows "get_expressions_or_columns_at a h = (Inr (get_expressions_or_columns self), h)"
  using assms
  by (auto simp: holds_Keys_def holds_mixin_def get_expressions_or_columns_at_def
      read_columns_def read_expressions_def bind_def ret_def get_expressions_or_columns_def
      split: option.splits object.splits)

lemma run_MergeTree_get_params_at:
  assumes "holds_MergeTree h r self"
  shows "\<exists>partial. MergeTree_get_params_at esc r h =
     (case MergeTree_get_params esc self of
        Inl e \<Rightarrow> (Inl (Raised e), h @ [ListObj partial])
      | Inr ps \<Rightarrow> (Inr (length h), h @ [ListObj ps]))"
proof -
  have d: "get_column_at (date_col_ref r) (h @ xs) =
      (case get_column (date_col self) of Inl e \<Rightarrow> Inl (Raised e) | Inr c \<Rightarrow> Inr c, h @ xs)"
    for xs
    using assms
    by (intro run_get_column_at holds_TableCol_unchanged [OF unchanged_append])
      (simp add: holds_MergeTree_def)
  have k: "get_expressions_or_columns_at (key_cols_ref r) (h @ xs) =
      (Inr (get_expressions_or_columns (key_cols self)), h @ xs)" for xs
    using assms
    by (intro run_get_expressions_or_columns_at holds_Keys_unchanged [OF unchanged_append])
      (simp add: holds_MergeTree_def)
  have s: "get_expressions_or_columns_at a (h @ xs) =
      (Inr (get_expressions_or_columns sm), h @ xs)"
    if "sampling_ref r = Some a" "sampling self = Some sm" for a sm xs
    using assms that
    by (intro run_get_expressions_or_columns_at holds_Keys_unchanged [OF unchanged_append])
      (simp add: holds_MergeTree_def holds_Keys_option_def)
  have sn: "(sampling_ref r = None) = (sampling self = None)"
    using assms by (auto simp: holds_MergeTree_def holds_Keys_option_def split: option.splits)
  have f: "index_granularity_val r = index_granularity self"
    "replica_name_val r = replica_name self"
    "replica_table_path_val r = replica_table_path self"
    using assms by (simp_all add: holds_MergeTree_def)
  show ?thesis
    using sn
    by (auto simp: MergeTree_get_params_at_def MergeTree_get_params_def bind_def ret_def
        raise_def lift_def new_list_def run_list_append run_list_extend d k s f
        split: sum.splits option.splits list.splits)
qed

lemma run_get_params_at:
  assumes "holds_engine h a e"
  shows "\<exists>new. get_params_at esc a h =
     (case params_of esc e of
        Inl err \<Rightarrow> (Inl (Raised err), h @ new)
      | Inr ps \<Rightarrow> (Inr (length h), h @ [ListObj ps]))"
proof -
  from assms obtain k where
    a: "lookup h a = Some (EngineObj k (table e))" and c: "holds_class h k (cls e)"
    by (auto simp: holds_engine_def split: option.splits object.splits)
  have rd: "read_engine a h = (Inr k, h)"
    by (simp add: read_engine_def a)
  show ?thesis
  proof (cases "cls e")
    case Engine
    with c have "k = EngineR" by (cases k) simp_all
    then have "get_params_at esc a h = (Inl (Raised NotImplementedError), h @ [])"
      by (simp add: get_params_at_def bind_def rd raise_def)
    then show ?thesis
      by (intro exI [of _ "[]"]) (simp add: params_of_def get_params_def Engine)
  next
    case (MergeTree mt)
    with c obtain r where k: "k = MergeTreeR r" and r: "holds_MergeTree h r mt"
      by (cases k) simp_all
    from run_MergeTree_get_params_at [OF r, of esc] obtain partial where
      "MergeTree_get_params_at esc r h =
        (case MergeTree_get_params esc mt of
           Inl e \<Rightarrow> (Inl (Raised e), h @ [ListObj partial])
         | Inr ps \<Rightarrow> (Inr (length h), h @ [ListObj ps]))"
      by blast
    then show ?thesis
      by (intro exI [of _ "[ListObj partial]"])
        (simp add: get_params_at_def bind_def rd k params_of_def get_params_def MergeTree
          split: sum.splits)
  next
    case (CollapsingMergeTree mt sign_col)
    with c obtain r s where k: "k = CollapsingMergeTreeR r s" and
      r: "holds_MergeTree h r mt" and s: "holds_TableCol h s sign_col"
      by (cases k) simp_all
    from run_MergeTree_get_params_at [OF r, of esc] obtain partial where
      b: "MergeTree_get_params_at esc r h =
        (case MergeTree_get_params esc mt of
           Inl e \<Rightarrow> (Inl (Raised e), h @ [ListObj partial])
         | Inr ps \<Rightarrow> (Inr (length h), h @ [ListObj ps]))"
      by blast
    have g: "get_column_at s (h @ xs) =
        (case get_column sign_col of Inl e \<Rightarrow> Inl (Raised e) | Inr c \<Rightarrow> Inr c, h @ xs)"
      for xs
      by (intro run_get_column_at holds_TableCol_unchanged [OF unchanged_append s])
    show ?thesis
    proof (cases "MergeTree_get_params esc mt")
      case (Inl err)
      with b show ?thesis
        by (intro exI [of _ "[ListObj partial]"])
          (simp add: get_params_at_def bind_def rd k params_of_def get_params_def
            CollapsingMergeTree)
    next
      case (Inr ps)
      with b show ?thesis
        by (intro exI [of _ "[ListObj ps]"])
          (simp add: get_params_at_def bind_def rd k params_of_def get_params_def
            CollapsingMergeTree g run_list_append ret_def split: sum.splits)
    qed
  next
    case (SummingMergeTree mt summing_cols)
    with c obtain r s where k: "k = SummingMergeTreeR r s" and
      r: "holds_MergeTree h r mt" and s: "holds_Keys_option h s summing_cols"
      by (cases k) simp_all
    from run_MergeTree_get_params_at [OF r, of esc] obtain partial where
      b: "MergeTree_get_params_at esc r h =
        (case MergeTree_get_params esc mt of
           Inl e \<Rightarrow> (Inl (Raised e), h @ [ListObj partial])
         | Inr ps \<Rightarrow> (Inr (length h), h @ [ListObj ps]))"
      by blast
    have g: "get_expressions_or_columns_at a' (h @ xs) =
        (Inr (get_expressions_or_columns sm), h @ xs)"
      if "s = Some a'" "summing_cols = Some sm" for a' sm xs
      using s that
      by (intro run_get_expressions_or_columns_at holds_Keys_unchanged [OF unchanged_append])
        (simp add: holds_Keys_option_def)
    have sn: "(s = None) = (summing_cols = None)"
      using s by (auto simp: holds_Keys_option_def split: option.splits)
    show ?thesis
    proof (cases "MergeTree_get_params esc mt")
      case (Inl err)
      with b show ?thesis
        by (intro exI [of _ "[ListObj partial]"])
          (simp add: get_params_at_def bind_def rd k params_of_def get_params_def
            SummingMergeTree)
    next
      case (Inr ps)
      with b sn show ?thesis
        by (intro exI [of _ "[ListObj ps]"])
          (auto simp: get_params_at_def bind_def rd k params_of_def get_params_def
            SummingMergeTree g run_list_append ret_def split: option.splits)
    qed
  next
    case (Buffer b)
    with c have "k = BufferR b" by (cases k) simp_all
    then show ?thesis
      by (simp add: get_params_at_def bind_def rd new_list_def params_of_def get_params_def
          Buffer)
  next
    case Memory
    with c have "k = MemoryR" by (cases k) simp_all
    then show ?thesis
      by (simp add: get_params_at_def bind_def rd new_list_def params_of_def get_params_def
          Memory)
  next
    case (Merge db regexp)
    with c have "k = MergeR db regexp" by (cases k) simp_all
    then show ?thesis
      by (simp add: get_params_at_def bind_def rd new_list_def params_of_def get_params_def
          Merge)
  qed
qed

section \<open>The claims\<close>

text \<open>
  C1. The round trip keeps the length and keeps every expression at its position
  (\<open>rendered_length\<close>, \<open>rendered_expression_positions\<close>), and it resolves every name at
  its position when the names are distinct and no expression comes before a name
  (\<open>rendered_names_first\<close>). It does not do so in general: the constructor skips an
  expression when it collects the columns, and \<^verbatim>\<open>get_expressions_or_columns\<close> pairs
  the inputs with the columns by position. For \<^verbatim>\<open>text("intHash32(x)")\<close> followed by
  the name \<^verbatim>\<open>"x"\<close>, on a table that has the column \<^verbatim>\<open>x\<close>, the second position
  holds \<^verbatim>\<open>None\<close>, not the column.
\<close>

theorem C1_text_before_name_loses_column:
  "rendered_after_attach (Table ''hits'' [Column ''x'' ''Int64''])
     [Text ''intHash32(x)'', Name ''x''] =
     Inr [TextClause ''intHash32(x)'', PNone]"
  by (simp add: rendered_after_attach_def KeysExpressionOrColumn_init_eq
      ColumnCollectionMixin_set_parent_def table_c_getitem_def get_expressions_or_columns_def)

text \<open>
  C2. For every attached \<^verbatim>\<open>MergeTree\<close> (constructed without error, then bound to a
  table without error), \<^verbatim>\<open>get_params()\<close> returns this list and nothing else: when
  the descriptor is replicated (both replication coordinates non-empty), the escaped
  \<^verbatim>\<open>replica_table_path\<close> and then the escaped \<^verbatim>\<open>replica_name\<close>; the column the
  table holds under the date column's name; when a sampling expression was given, the one
  item its bound \<^verbatim>\<open>KeysExpressionOrColumn\<close> renders; the tuple of what the bound key
  list renders; the index granularity. Its length is
  \<open>2 * (1 if replicated) + 1 + (1 if sampling) + 1 + 1\<close>.
\<close>

theorem C2_MergeTree_get_params_order:
  assumes new: "new_MergeTree d ks smp g rn rp = Inr e0"
      and att: "set_parent t e0 = Inr e"
  shows "\<exists>dc kc items ps.
      table_c_getitem t d = Inr dc \<and>
      ColumnCollectionMixin_set_parent t (KeysExpressionOrColumn_init ks) = Inr kc \<and>
      (case smp of
         None \<Rightarrow> items = []
       | Some s \<Rightarrow>
           \<exists>sc item. ColumnCollectionMixin_set_parent t (KeysExpressionOrColumn_init [s]) = Inr sc
             \<and> get_expressions_or_columns sc = [item] \<and> items = [item]) \<and>
      params_of esc e = Inr ps \<and>
      ps = (case (rn, rp) of
              (Some n, Some p) \<Rightarrow> if n \<noteq> [] \<and> p \<noteq> [] then [PStr (esc p), PStr (esc n)] else []
            | _ \<Rightarrow> [])
           @ [PColumn dc] @ items
           @ [PTuple (get_expressions_or_columns kc),
              PInt (case g of None \<Rightarrow> 8192 | Some v \<Rightarrow> v)] \<and>
      length ps = 2 * (if truthy rn \<and> truthy rp then 1 else 0) + 1
                  + (if smp = None then 0 else 1) + 1 + 1"
proof -
  from new have ok: "truthy rn = truthy rp"
    and e0: "e0 = new (MergeTree (fresh_fields d ks smp g rn rp))"
    by (auto simp: new_MergeTree_def MergeTree_init_eq split: if_splits)
  from att e0 obtain mt where
    mt: "MergeTree_set_parent t (fresh_fields d ks smp g rn rp) = Inr mt" and
    e: "cls e = MergeTree mt"
    by (auto simp: set_parent_def Engine_set_parent_def new_def split: sum.splits)
  from MergeTree_attached_params [OF ok mt, of esc] obtain dc kc items where
    a: "table_c_getitem t d = Inr dc"
       "ColumnCollectionMixin_set_parent t (KeysExpressionOrColumn_init ks) = Inr kc"
       "(case smp of
         None \<Rightarrow> items = []
       | Some s \<Rightarrow>
           \<exists>sc item. ColumnCollectionMixin_set_parent t (KeysExpressionOrColumn_init [s]) = Inr sc
             \<and> get_expressions_or_columns sc = [item] \<and> items = [item])"
       "MergeTree_get_params esc mt =
        Inr ((case (rn, rp) of
                (Some n, Some p) \<Rightarrow> if n \<noteq> [] \<and> p \<noteq> [] then [PStr (esc p), PStr (esc n)] else []
              | _ \<Rightarrow> [])
             @ [PColumn dc] @ items
             @ [PTuple (get_expressions_or_columns kc),
                PInt (case g of None \<Rightarrow> 8192 | Some v \<Rightarrow> v)])"
    by blast
  define rep where "rep = (case (rn, rp) of
              (Some n, Some p) \<Rightarrow> if n \<noteq> [] \<and> p \<noteq> [] then [PStr (esc p), PStr (esc n)] else []
            | _ \<Rightarrow> [])"
  define ps where "ps = rep @ [PColumn dc] @ items
           @ [PTuple (get_expressions_or_columns kc),
              PInt (case g of None \<Rightarrow> 8192 | Some v \<Rightarrow> v)]"
  have p: "params_of esc e = Inr ps"
    using a(4) by (simp add: params_of_def get_params_def e ps_def rep_def)
  have li: "length items = (if smp = None then 0 else 1)"
    using a(3) by (cases smp) auto
  have lr: "length rep = 2 * (if truthy rn \<and> truthy rp then 1 else 0)"
    unfolding rep_def by (cases rn; cases rp) auto
  have len: "length ps = 2 * (if truthy rn \<and> truthy rp then 1 else 0) + 1
                  + (if smp = None then 0 else 1) + 1 + 1"
    unfolding ps_def by (simp add: li lr)
  from a(1) a(2) a(3) p ps_def [unfolded rep_def] len show ?thesis by blast
qed

theorem C2_MergeTree_get_params_order_witness:
  "\<exists>e0 e. new_MergeTree ''d'' [Name ''a'', Name ''b''] (Some (Text ''intHash32(a)'')) None
              (Some ''r1'') (Some ''/p'') = Inr e0 \<and>
     set_parent (Table ''hits'' [Column ''d'' ''Date'', Column ''a'' ''Int32'', Column ''b'' ''Int32'']) e0 = Inr e \<and>
     params_of (\<lambda>s. ''<'' @ s @ ''>'') e =
       Inr [PStr ''</p>'', PStr ''<r1>'', PColumn (Column ''d'' ''Date''),
            TextClause ''intHash32(a)'',
            PTuple [PColumn (Column ''a'' ''Int32''), PColumn (Column ''b'' ''Int32'')],
            PInt 8192]"
proof -
  let ?t = "Table ''hits'' [Column ''d'' ''Date'', Column ''a'' ''Int32'', Column ''b'' ''Int32'']"
  obtain e0 where e0: "new_MergeTree ''d'' [Name ''a'', Name ''b''] (Some (Text ''intHash32(a)'')) None
              (Some ''r1'') (Some ''/p'') = Inr e0"
    by (simp add: new_MergeTree_def MergeTree_init_eq)
  have kc: "ColumnCollectionMixin_set_parent ?t (KeysExpressionOrColumn_init [Name ''a'', Name ''b''])
      = Inr \<lparr>pending_colargs = [''a'', ''b''], columns = [Column ''a'' ''Int32'', Column ''b'' ''Int32''],
             expressions = [PStr ''a'', PStr ''b'']\<rparr>"
    by (simp add: ColumnCollectionMixin_set_parent_def KeysExpressionOrColumn_init_def
        extract_col_expression_collection_def ColumnCollectionMixin_init_def
        table_c_getitem_def ColumnCollection_add_def)
  have sc: "ColumnCollectionMixin_set_parent ?t (KeysExpressionOrColumn_init [Text ''intHash32(a)''])
      = Inr \<lparr>pending_colargs = [], columns = [], expressions = [TextClause ''intHash32(a)'']\<rparr>"
    by (simp add: ColumnCollectionMixin_set_parent_def sampling_init_Text)
  have dc: "ColumnCollectionMixin_set_parent ?t (TableCol_init ''d'')
      = Inr \<lparr>pending_colargs = [''d''], columns = [Column ''d'' ''Date'']\<rparr>"
    by (simp add: TableCol_set_parent table_c_getitem_def)
  obtain e where e: "set_parent ?t e0 = Inr e"
    using e0 by (auto simp: new_MergeTree_def MergeTree_init_eq set_parent_def
        Engine_set_parent_def new_def MergeTree_set_parent_def fresh_fields_def kc sc dc)
  from C2_MergeTree_get_params_order [OF e0 e, of "\<lambda>s. ''<'' @ s @ ''>''"]
  have "params_of (\<lambda>s. ''<'' @ s @ ''>'') e =
       Inr [PStr ''</p>'', PStr ''<r1>'', PColumn (Column ''d'' ''Date''),
            TextClause ''intHash32(a)'',
            PTuple [PColumn (Column ''a'' ''Int32''), PColumn (Column ''b'' ''Int32'')],
            PInt 8192]"
    by (auto simp: kc sc table_c_getitem_def get_expressions_or_columns_def)
  with e0 e show ?thesis by blast
qed

text \<open>
  C3, as amended. \<^verbatim>\<open>MergeTree.__init__\<close> raises (the bare \<^verbatim>\<open>Exception\<close> "Need both
  or no one", in the constructor and nowhere later) exactly when one of
  \<^verbatim>\<open>replica_name\<close> and \<^verbatim>\<open>replica_table_path\<close> is truthy, that is neither
  \<^verbatim>\<open>None\<close> nor the empty string, and the other is not; when both are truthy or
  neither is, construction succeeds.
\<close>

theorem C3_replica_pair_validation:
  "(truthy rn = truthy rp \<longrightarrow> (\<exists>e. new_MergeTree d ks smp g rn rp = Inr e)) \<and>
   (truthy rn \<noteq> truthy rp \<longrightarrow>
      new_MergeTree d ks smp g rn rp =
        Inl (Exception ''Need both or no one [replica_path, replica_name]''))"
  by (simp add: new_MergeTree_eq)

theorem C3_replica_pair_validation_witness:
  "(\<exists>e. new_MergeTree ''d'' [Name ''k''] None None (Some ''r1'') (Some ''/p'') = Inr e) \<and>
   (\<exists>e. new_MergeTree ''d'' [Name ''k''] None None None None = Inr e) \<and>
   new_MergeTree ''d'' [Name ''k''] None None (Some ''r1'') None =
     Inl (Exception ''Need both or no one [replica_path, replica_name]'') \<and>
   new_MergeTree ''d'' [Name ''k''] None None None (Some ''/p'') =
     Inl (Exception ''Need both or no one [replica_path, replica_name]'')"
  using C3_replica_pair_validation [of "Some ''r1''" "Some ''/p''" "''d''" "[Name ''k'']" None None]
    C3_replica_pair_validation [of None None "''d''" "[Name ''k'']" None None]
    C3_replica_pair_validation [of "Some ''r1''" None "''d''" "[Name ''k'']" None None]
    C3_replica_pair_validation [of None "Some ''/p''" "''d''" "[Name ''k'']" None None]
  by simp

text \<open>
  The claim as written speaks of arguments that are present. With
  \<^verbatim>\<open>replica_name=""\<close> and \<^verbatim>\<open>replica_table_path="/p"\<close> both are present and
  construction raises; with \<^verbatim>\<open>replica_name=""\<close> alone, exactly one is present and
  construction succeeds.
\<close>

theorem C3_both_present_counterexample:
  "new_MergeTree ''d'' [Name ''k''] None None (Some '''') (Some ''/p'') =
     Inl (Exception ''Need both or no one [replica_path, replica_name]'') \<and>
   \<not> isl (new_MergeTree ''d'' [Name ''k''] None None (Some '''') None)"
  by (simp add: new_MergeTree_eq)

text \<open>
  C4, as amended. Take a descriptor built from bare column names and literal text
  expressions (a name is resolved only by \<^verbatim>\<open>_set_parent\<close>; a \<^verbatim>\<open>Column\<close> object
  that already belongs to a table is bound by the constructor of \<^verbatim>\<open>TableCol\<close> itself
  and is no input of this model). Before \<^verbatim>\<open>_set_parent\<close>, \<^verbatim>\<open>TableCol.get_column\<close> fails, and so does
  \<^verbatim>\<open>get_params()\<close> of \<^verbatim>\<open>MergeTree\<close>, \<^verbatim>\<open>CollapsingMergeTree\<close> and
  \<^verbatim>\<open>SummingMergeTree\<close>: the column collection is still empty and
  \<^verbatim>\<open>list(self.columns)[0]\<close> raises \<^verbatim>\<open>IndexError\<close> (the module has no error of its
  own for the unbound state). \<^verbatim>\<open>get_params()\<close> of \<^verbatim>\<open>Buffer\<close>, \<^verbatim>\<open>Memory\<close> and
  \<^verbatim>\<open>Merge\<close> returns its whole list without any table, and \<^verbatim>\<open>name()\<close> returns the
  same string before and after binding.
\<close>

theorem C4_before_attach:
  "get_column (TableCol_init n) = Inl IndexError \<and>
   (new_MergeTree d ks smp g rn rp = Inr e1 \<longrightarrow> params_of esc e1 = Inl IndexError) \<and>
   (new_CollapsingMergeTree d ks sc smp g = Inr e2 \<longrightarrow> params_of esc e2 = Inl IndexError) \<and>
   (new_SummingMergeTree d ks cs smp g = Inr e3 \<longrightarrow> params_of esc e3 = Inl IndexError) \<and>
   params_of esc (new_Buffer db tb a1 a2 a3 a4 a5 a6 a7) =
     Inr [PStr db, PStr tb,
          PInt (case a1 of None \<Rightarrow> 16 | Some v \<Rightarrow> v),
          PInt (case a2 of None \<Rightarrow> 10 | Some v \<Rightarrow> v),
          PInt (case a3 of None \<Rightarrow> 100 | Some v \<Rightarrow> v),
          PInt (case a4 of None \<Rightarrow> 10000 | Some v \<Rightarrow> v),
          PInt (case a5 of None \<Rightarrow> 1000000 | Some v \<Rightarrow> v),
          PInt (case a6 of None \<Rightarrow> 10000000 | Some v \<Rightarrow> v),
          PInt (case a7 of None \<Rightarrow> 100000000 | Some v \<Rightarrow> v)] \<and>
   params_of esc new_Memory = Inr [] \<and>
   params_of esc (new_Merge db re) = Inr [PStr db, PStr (esc re)] \<and>
   (set_parent t e = Inr e' \<longrightarrow> name e' = name e)"
proof (intro conjI impI)
  show "get_column (TableCol_init n) = Inl IndexError"
    by (rule unattached_get_column)
next
  assume "new_MergeTree d ks smp g rn rp = Inr e1"
  then have "truthy rn = truthy rp" "e1 = new (MergeTree (fresh_fields d ks smp g rn rp))"
    by (auto simp: new_MergeTree_eq split: if_splits)
  then show "params_of esc e1 = Inl IndexError"
    by (simp add: params_of_def get_params_def new_def unattached_MergeTree_get_params)
next
  assume "new_CollapsingMergeTree d ks sc smp g = Inr e2"
  then have "e2 = new (CollapsingMergeTree (fresh_fields d ks smp g None None) (TableCol_init sc))"
    by (simp add: new_CollapsingMergeTree_eq)
  then show "params_of esc e2 = Inl IndexError"
    by (simp add: params_of_def get_params_def new_def unattached_MergeTree_get_params)
next
  assume "new_SummingMergeTree d ks cs smp g = Inr e3"
  then have "e3 = new (SummingMergeTree (fresh_fields d ks smp g None None)
      (map_option KeysExpressionOrColumn_init cs))"
    by (simp add: new_SummingMergeTree_eq)
  then show "params_of esc e3 = Inl IndexError"
    by (simp add: params_of_def get_params_def new_def unattached_MergeTree_get_params)
next
  show "params_of esc (new_Buffer db tb a1 a2 a3 a4 a5 a6 a7) =
     Inr [PStr db, PStr tb,
          PInt (case a1 of None \<Rightarrow> 16 | Some v \<Rightarrow> v),
          PInt (case a2 of None \<Rightarrow> 10 | Some v \<Rightarrow> v),
          PInt (case a3 of None \<Rightarrow> 100 | Some v \<Rightarrow> v),
          PInt (case a4 of None \<Rightarrow> 10000 | Some v \<Rightarrow> v),
          PInt (case a5 of None \<Rightarrow> 1000000 | Some v \<Rightarrow> v),
          PInt (case a6 of None \<Rightarrow> 10000000 | Some v \<Rightarrow> v),
          PInt (case a7 of None \<Rightarrow> 100000000 | Some v \<Rightarrow> v)]"
    by (simp add: params_of_def get_params_def new_Buffer_def new_def)
next
  show "params_of esc new_Memory = Inr []"
    by (simp add: params_of_def get_params_def new_Memory_def new_def)
next
  show "params_of esc (new_Merge db re) = Inr [PStr db, PStr (esc re)]"
    by (simp add: params_of_def get_params_def new_Merge_def new_def)
next
  assume "set_parent t e = Inr e'"
  then show "name e' = name e" by (rule set_parent_keeps_name)
qed

theorem C4_before_attach_witness:
  "(\<exists>e1. new_MergeTree ''date'' [Name ''id''] None None (Some ''r1'') (Some ''/p'') = Inr e1 \<and>
      params_of (\<lambda>s. s) e1 = Inl IndexError) \<and>
   (\<exists>e2. new_CollapsingMergeTree ''date'' [Name ''id''] ''sign'' None None = Inr e2 \<and>
      params_of (\<lambda>s. s) e2 = Inl IndexError) \<and>
   (\<exists>e3. new_SummingMergeTree ''date'' [Name ''id''] None None None = Inr e3 \<and>
      params_of (\<lambda>s. s) e3 = Inl IndexError) \<and>
   (\<exists>e'. set_parent (Table ''hits'' []) new_Memory = Inr e' \<and> name e' = name new_Memory)"
proof -
  note inst = C4_before_attach [where d = "''date''" and ks = "[Name ''id'']" and smp = None
      and g = None and esc = "\<lambda>s. s" and sc = "''sign''" and cs = None
      and rn = "Some ''r1''" and rp = "Some ''/p''" and t = "Table ''hits'' []"
      and e = new_Memory]
  obtain e1 where e1:
    "new_MergeTree ''date'' [Name ''id''] None None (Some ''r1'') (Some ''/p'') = Inr e1"
    by (simp add: new_MergeTree_eq)
  obtain e2 where e2: "new_CollapsingMergeTree ''date'' [Name ''id''] ''sign'' None None = Inr e2"
    by (simp add: new_CollapsingMergeTree_eq)
  obtain e3 where e3: "new_SummingMergeTree ''date'' [Name ''id''] None None None = Inr e3"
    by (simp add: new_SummingMergeTree_eq)
  obtain e' where e': "set_parent (Table ''hits'' []) new_Memory = Inr e'"
    by (simp add: set_parent_def new_Memory_def new_def Engine_set_parent_def)
  from inst e1 e2 e3 e' show ?thesis by blast
qed

text \<open>
  The claim as written has every engine fail before binding. \<^verbatim>\<open>Memory().get_params()\<close>
  returns the empty list, and \<^verbatim>\<open>name()\<close> of a \<^verbatim>\<open>MergeTree\<close> that was never bound
  returns \<^verbatim>\<open>"MergeTree"\<close>.
\<close>

theorem C4_no_attach_needed_counterexample:
  "params_of (\<lambda>s. s) new_Memory = Inr [] \<and>
   map_sum (\<lambda>e. e) name (new_MergeTree ''date'' [Name ''id''] None None None None) =
     Inr ''MergeTree''"
  by (simp add: params_of_def get_params_def new_Memory_def new_def new_MergeTree_eq name_def
      MergeTree_name_def fresh_fields_def)

text \<open>
  C5. \<^verbatim>\<open>name()\<close> of a \<^verbatim>\<open>MergeTree\<close> is \<^verbatim>\<open>"Replicated"\<close> followed by the
  class name when the descriptor is replicated (both replication coordinates non-empty)
  and the class name alone otherwise; \<^verbatim>\<open>CollapsingMergeTree\<close> and
  \<^verbatim>\<open>SummingMergeTree\<close>, whose constructors take no replication coordinates, are named
  by their class alone; binding to a table does not change the name. A
  \<^verbatim>\<open>MergeTree\<close> built with \<^verbatim>\<open>replica_name="r1"\<close> and
  \<^verbatim>\<open>replica_table_path="/p"\<close> is named \<^verbatim>\<open>ReplicatedMergeTree\<close>, and once bound
  its first two parameters are \<open>esc ''/p''\<close> and \<open>esc ''r1''\<close>.
\<close>

theorem C5_name_replicated_prefix:
  "(new_MergeTree d ks smp g rn rp = Inr e0 \<longrightarrow>
      name e0 = (if truthy rn \<and> truthy rp then ''Replicated'' @ ''MergeTree''
                 else ''MergeTree'')) \<and>
   (new_CollapsingMergeTree d ks sc smp g = Inr e1 \<longrightarrow> name e1 = ''CollapsingMergeTree'') \<and>
   (new_SummingMergeTree d ks cs smp g = Inr e2 \<longrightarrow> name e2 = ''SummingMergeTree'') \<and>
   (set_parent t e = Inr e' \<longrightarrow> name e' = name e) \<and>
   (\<exists>r. new_MergeTree d [k] None None (Some ''r1'') (Some ''/p'') = Inr r \<and>
        name r = ''ReplicatedMergeTree'' \<and>
        (\<forall>r'. set_parent t r = Inr r' \<longrightarrow>
           name r' = ''ReplicatedMergeTree'' \<and>
           (\<exists>ps. params_of esc r' = Inr ps \<and>
                 take 2 ps = [PStr (esc ''/p''), PStr (esc ''r1'')])))"
proof -
  let ?r = "new (MergeTree (fresh_fields d [k] None None (Some ''r1'') (Some ''/p'')))"
  have r: "new_MergeTree d [k] None None (Some ''r1'') (Some ''/p'') = Inr ?r"
    by (simp add: new_MergeTree_eq)
  have nr: "name ?r = ''ReplicatedMergeTree''"
    using new_MergeTree_name [OF r] by simp
  have att: "name r' = ''ReplicatedMergeTree'' \<and>
           (\<exists>ps. params_of esc r' = Inr ps \<and>
                 take 2 ps = [PStr (esc ''/p''), PStr (esc ''r1'')])"
    if a: "set_parent t ?r = Inr r'" for r'
  proof -
    have "truthy (Some ''r1'') = truthy (Some ''/p'')" by simp
    from attached_MergeTree_params [OF this a, of esc]
    have "\<exists>ps. params_of esc r' = Inr ps \<and>
                 take 2 ps = [PStr (esc ''/p''), PStr (esc ''r1'')]"
      by auto
    with set_parent_keeps_name [OF a] nr show ?thesis by simp
  qed
  from r nr att have last:
    "\<exists>r. new_MergeTree d [k] None None (Some ''r1'') (Some ''/p'') = Inr r \<and>
        name r = ''ReplicatedMergeTree'' \<and>
        (\<forall>r'. set_parent t r = Inr r' \<longrightarrow>
           name r' = ''ReplicatedMergeTree'' \<and>
           (\<exists>ps. params_of esc r' = Inr ps \<and>
                 take 2 ps = [PStr (esc ''/p''), PStr (esc ''r1'')]))"
    by blast
  show ?thesis
    using new_MergeTree_name new_CollapsingMergeTree_name new_SummingMergeTree_name
      set_parent_keeps_name last
    by (intro conjI impI) blast+
qed

theorem C5_name_replicated_prefix_witness:
  "\<exists>r r'. new_MergeTree ''date'' [Name ''id''] None None (Some ''r1'') (Some ''/p'') = Inr r \<and>
     name r = ''ReplicatedMergeTree'' \<and>
     set_parent (Table ''hits'' [Column ''date'' ''Date'', Column ''id'' ''Int64'']) r = Inr r' \<and>
     name r' = ''ReplicatedMergeTree'' \<and>
     (\<exists>ps. params_of (\<lambda>s. ''<'' @ s @ ''>'') r' = Inr ps \<and>
           take 2 ps = [PStr ''</p>'', PStr ''<r1>''])"
proof -
  let ?t = "Table ''hits'' [Column ''date'' ''Date'', Column ''id'' ''Int64'']"
  from C5_name_replicated_prefix [where d = "''date''" and k = "Name ''id''" and t = ?t
      and esc = "\<lambda>s. ''<'' @ s @ ''>''", THEN conjunct2, THEN conjunct2, THEN conjunct2,
      THEN conjunct2]
  obtain r where
    r: "new_MergeTree ''date'' [Name ''id''] None None (Some ''r1'') (Some ''/p'') = Inr r" and
    n: "name r = ''ReplicatedMergeTree''" and
    a: "\<And>r'. set_parent ?t r = Inr r' \<Longrightarrow>
           name r' = ''ReplicatedMergeTree'' \<and>
           (\<exists>ps. params_of (\<lambda>s. ''<'' @ s @ ''>'') r' = Inr ps \<and>
                 take 2 ps = [PStr ''</p>'', PStr ''<r1>''])"
    by (simp only: append.simps) blast
  have "\<exists>r'. set_parent ?t r = Inr r'"
    by (simp add: new_MergeTree_attaches [OF r])
  then obtain r' where r': "set_parent ?t r = Inr r'" by blast
  from r n r' a [OF r'] show ?thesis by blast
qed

text \<open>
  C6. For every attached \<^verbatim>\<open>CollapsingMergeTree\<close>, \<^verbatim>\<open>get_params()\<close> is the list a
  \<^verbatim>\<open>MergeTree\<close> built from the same arguments and bound to the same table returns,
  with one item appended last: the column the table holds under the sign column's name.
  For every attached \<^verbatim>\<open>SummingMergeTree\<close> built with \<^verbatim>\<open>summing_cols\<close>, it is that
  list with one item appended last, the tuple of what the bound summing columns render;
  built without \<^verbatim>\<open>summing_cols\<close>, it is that list unchanged.
\<close>

theorem C6_variant_params:
  "(new_CollapsingMergeTree d ks sc smp g = Inr e1 \<and> set_parent t e1 = Inr e1' \<longrightarrow>
      (\<exists>b b' base c.
          new_MergeTree d ks smp g None None = Inr b \<and> set_parent t b = Inr b' \<and>
          params_of esc b' = Inr base \<and>
          table_c_getitem t sc = Inr c \<and>
          params_of esc e1' = Inr (base @ [PColumn c]))) \<and>
   (new_SummingMergeTree d ks (Some cs) smp g = Inr e2 \<and> set_parent t e2 = Inr e2' \<longrightarrow>
      (\<exists>b b' base sm.
          new_MergeTree d ks smp g None None = Inr b \<and> set_parent t b = Inr b' \<and>
          params_of esc b' = Inr base \<and>
          ColumnCollectionMixin_set_parent t (KeysExpressionOrColumn_init cs) = Inr sm \<and>
          params_of esc e2' = Inr (base @ [PTuple (get_expressions_or_columns sm)]))) \<and>
   (new_SummingMergeTree d ks None smp g = Inr e3 \<and> set_parent t e3 = Inr e3' \<longrightarrow>
      (\<exists>b b' base.
          new_MergeTree d ks smp g None None = Inr b \<and> set_parent t b = Inr b' \<and>
          params_of esc b' = Inr base \<and>
          params_of esc e3' = Inr base))"
proof (intro conjI impI; elim conjE)
  let ?f = "fresh_fields d ks smp g None None"
  let ?b = "new (MergeTree ?f)"
  have b: "new_MergeTree d ks smp g None None = Inr ?b"
    by (simp add: new_MergeTree_eq)
  {
    assume "new_CollapsingMergeTree d ks sc smp g = Inr e1" and a: "set_parent t e1 = Inr e1'"
    then have e1: "e1 = new (CollapsingMergeTree ?f (TableCol_init sc))"
      by (simp add: new_CollapsingMergeTree_eq)
    from a obtain mt sc' where
      mt: "MergeTree_set_parent t ?f = Inr mt" and
      sc': "ColumnCollectionMixin_set_parent t (TableCol_init sc) = Inr sc'" and
      e1': "cls e1' = CollapsingMergeTree mt sc'"
      unfolding e1 by (auto simp: set_parent_CollapsingMergeTree)
    from mt have b': "set_parent t ?b = Inr \<lparr>cls = MergeTree mt, table = Some t\<rparr>"
      by (simp add: set_parent_MergeTree)
    from attached_MergeTree_params_exists [OF b b', of esc] obtain base where
      base: "MergeTree_get_params esc mt = Inr base"
        "params_of esc \<lparr>cls = MergeTree mt, table = Some t\<rparr> = Inr base"
      by auto
    from TableCol_attached_get_column [OF sc'] obtain c where
      c: "table_c_getitem t sc = Inr c" "get_column sc' = Inr c" by blast
    have "params_of esc e1' = Inr (base @ [PColumn c])"
      by (simp add: params_of_def get_params_def e1' base c)
    with b b' base c
    show "\<exists>b b' base c.
          new_MergeTree d ks smp g None None = Inr b \<and> set_parent t b = Inr b' \<and>
          params_of esc b' = Inr base \<and>
          table_c_getitem t sc = Inr c \<and>
          params_of esc e1' = Inr (base @ [PColumn c])"
      by blast
  next
    assume "new_SummingMergeTree d ks (Some cs) smp g = Inr e2" and a: "set_parent t e2 = Inr e2'"
    then have e2: "e2 = new (SummingMergeTree ?f (Some (KeysExpressionOrColumn_init cs)))"
      by (simp add: new_SummingMergeTree_eq)
    from a obtain mt sm where
      mt: "MergeTree_set_parent t ?f = Inr mt" and
      sm: "ColumnCollectionMixin_set_parent t (KeysExpressionOrColumn_init cs) = Inr sm" and
      e2': "cls e2' = SummingMergeTree mt (Some sm)"
      unfolding e2 by (auto simp: set_parent_SummingMergeTree_Some)
    from mt have b': "set_parent t ?b = Inr \<lparr>cls = MergeTree mt, table = Some t\<rparr>"
      by (simp add: set_parent_MergeTree)
    from attached_MergeTree_params_exists [OF b b', of esc] obtain base where
      base: "MergeTree_get_params esc mt = Inr base"
        "params_of esc \<lparr>cls = MergeTree mt, table = Some t\<rparr> = Inr base"
      by auto
    have "params_of esc e2' = Inr (base @ [PTuple (get_expressions_or_columns sm)])"
      by (simp add: params_of_def get_params_def e2' base)
    with b b' base sm
    show "\<exists>b b' base sm.
          new_MergeTree d ks smp g None None = Inr b \<and> set_parent t b = Inr b' \<and>
          params_of esc b' = Inr base \<and>
          ColumnCollectionMixin_set_parent t (KeysExpressionOrColumn_init cs) = Inr sm \<and>
          params_of esc e2' = Inr (base @ [PTuple (get_expressions_or_columns sm)])"
      by blast
  next
    assume "new_SummingMergeTree d ks None smp g = Inr e3" and a: "set_parent t e3 = Inr e3'"
    then have e3: "e3 = new (SummingMergeTree ?f None)"
      by (simp add: new_SummingMergeTree_eq)
    from a obtain mt where
      mt: "MergeTree_set_parent t ?f = Inr mt" and
      e3': "cls e3' = SummingMergeTree mt None"
      unfolding e3 by (auto simp: set_parent_SummingMergeTree_None)
    from mt have b': "set_parent t ?b = Inr \<lparr>cls = MergeTree mt, table = Some t\<rparr>"
      by (simp add: set_parent_MergeTree)
    from attached_MergeTree_params_exists [OF b b', of esc] obtain base where
      base: "MergeTree_get_params esc mt = Inr base"
        "params_of esc \<lparr>cls = MergeTree mt, table = Some t\<rparr> = Inr base"
      by auto
    have "params_of esc e3' = Inr base"
      by (simp add: params_of_def get_params_def e3' base)
    with b b' base
    show "\<exists>b b' base.
          new_MergeTree d ks smp g None None = Inr b \<and> set_parent t b = Inr b' \<and>
          params_of esc b' = Inr base \<and>
          params_of esc e3' = Inr base"
      by blast
  }
qed

theorem C6_variant_params_witness:
  "(\<exists>e1 e1' b b' base.
      new_CollapsingMergeTree ''date'' [Name ''id''] ''sign'' None None = Inr e1 \<and>
      set_parent (Table ''hits'' [Column ''date'' ''Date'', Column ''id'' ''Int64'',
                    Column ''sign'' ''Int8'', Column ''clicks'' ''Int64'']) e1 = Inr e1' \<and>
      new_MergeTree ''date'' [Name ''id''] None None None None = Inr b \<and>
      set_parent (Table ''hits'' [Column ''date'' ''Date'', Column ''id'' ''Int64'',
                    Column ''sign'' ''Int8'', Column ''clicks'' ''Int64'']) b = Inr b' \<and>
      params_of (\<lambda>s. s) b' = Inr base \<and>
      params_of (\<lambda>s. s) e1' = Inr (base @ [PColumn (Column ''sign'' ''Int8'')])) \<and>
   (\<exists>e2 e2' b b' base.
      new_SummingMergeTree ''date'' [Name ''id''] (Some [Name ''clicks'']) None None = Inr e2 \<and>
      set_parent (Table ''hits'' [Column ''date'' ''Date'', Column ''id'' ''Int64'',
                    Column ''sign'' ''Int8'', Column ''clicks'' ''Int64'']) e2 = Inr e2' \<and>
      new_MergeTree ''date'' [Name ''id''] None None None None = Inr b \<and>
      set_parent (Table ''hits'' [Column ''date'' ''Date'', Column ''id'' ''Int64'',
                    Column ''sign'' ''Int8'', Column ''clicks'' ''Int64'']) b = Inr b' \<and>
      params_of (\<lambda>s. s) b' = Inr base \<and>
      params_of (\<lambda>s. s) e2' = Inr (base @ [PTuple [PColumn (Column ''clicks'' ''Int64'')]])) \<and>
   (\<exists>e3 e3' b b' base.
      new_SummingMergeTree ''date'' [Name ''id''] None None None = Inr e3 \<and>
      set_parent (Table ''hits'' [Column ''date'' ''Date'', Column ''id'' ''Int64'',
                    Column ''sign'' ''Int8'', Column ''clicks'' ''Int64'']) e3 = Inr e3' \<and>
      new_MergeTree ''date'' [Name ''id''] None None None None = Inr b \<and>
      set_parent (Table ''hits'' [Column ''date'' ''Date'', Column ''id'' ''Int64'',
                    Column ''sign'' ''Int8'', Column ''clicks'' ''Int64'']) b = Inr b' \<and>
      params_of (\<lambda>s. s) b' = Inr base \<and>
      params_of (\<lambda>s. s) e3' = Inr base)"
proof -
  let ?t = "Table ''hits'' [Column ''date'' ''Date'', Column ''id'' ''Int64'',
                    Column ''sign'' ''Int8'', Column ''clicks'' ''Int64'']"
  note inst = C6_variant_params [where d = "''date''" and ks = "[Name ''id'']" and smp = None
      and g = None and t = ?t and esc = "\<lambda>s. s" and sc = "''sign''" and cs = "[Name ''clicks'']"]
  obtain e1 where e1: "new_CollapsingMergeTree ''date'' [Name ''id''] ''sign'' None None = Inr e1"
    by (simp add: new_CollapsingMergeTree_eq)
  have "\<exists>e. set_parent ?t e1 = Inr e"
    by (simp add: new_CollapsingMergeTree_attaches [OF e1])
  then obtain e1' where e1': "set_parent ?t e1 = Inr e1'" by blast
  have sign: "table_c_getitem ?t ''sign'' = Inr c \<longleftrightarrow> c = Column ''sign'' ''Int8''" for c
    by (auto simp: table_c_getitem_def)
  from inst [THEN conjunct1, rule_format, OF conjI, OF e1 e1']
  have w1: "\<exists>b b' base.
      new_MergeTree ''date'' [Name ''id''] None None None None = Inr b \<and>
      set_parent ?t b = Inr b' \<and>
      params_of (\<lambda>s. s) b' = Inr base \<and>
      params_of (\<lambda>s. s) e1' = Inr (base @ [PColumn (Column ''sign'' ''Int8'')])"
    unfolding sign by blast
  obtain e2 where e2:
    "new_SummingMergeTree ''date'' [Name ''id''] (Some [Name ''clicks'']) None None = Inr e2"
    by (simp add: new_SummingMergeTree_eq)
  have "\<exists>e. set_parent ?t e2 = Inr e"
    by (simp add: new_SummingMergeTree_attaches [OF e2])
  then obtain e2' where e2': "set_parent ?t e2 = Inr e2'" by blast
  have clicks: "ColumnCollectionMixin_set_parent ?t (KeysExpressionOrColumn_init [Name ''clicks''])
      = Inr sm \<longleftrightarrow> sm = \<lparr>pending_colargs = [''clicks''],
          columns = [Column ''clicks'' ''Int64''], expressions = [PStr ''clicks'']\<rparr>" for sm
    by (auto simp: KeysExpressionOrColumn_init_eq ColumnCollectionMixin_set_parent_def
        table_c_getitem_def)
  have rendered: "get_expressions_or_columns \<lparr>pending_colargs = [''clicks''],
          columns = [Column ''clicks'' ''Int64''], expressions = [PStr ''clicks'']\<rparr>
        = [PColumn (Column ''clicks'' ''Int64'')]"
    by (simp add: get_expressions_or_columns_def)
  from inst [THEN conjunct2, THEN conjunct1, rule_format, OF conjI, OF e2 e2']
  have w2: "\<exists>b b' base.
      new_MergeTree ''date'' [Name ''id''] None None None None = Inr b \<and>
      set_parent ?t b = Inr b' \<and>
      params_of (\<lambda>s. s) b' = Inr base \<and>
      params_of (\<lambda>s. s) e2' = Inr (base @ [PTuple [PColumn (Column ''clicks'' ''Int64'')]])"
    unfolding clicks using rendered by auto
  obtain e3 where e3:
    "new_SummingMergeTree ''date'' [Name ''id''] None None None = Inr e3"
    by (simp add: new_SummingMergeTree_eq)
  have "\<exists>e. set_parent ?t e3 = Inr e"
    by (simp add: new_SummingMergeTree_attaches [OF e3])
  then obtain e3' where e3': "set_parent ?t e3 = Inr e3'" by blast
  from inst [THEN conjunct2, THEN conjunct2, rule_format, OF conjI, OF e3 e3']
  have w3: "\<exists>b b' base.
      new_MergeTree ''date'' [Name ''id''] None None None None = Inr b \<and>
      set_parent ?t b = Inr b' \<and>
      params_of (\<lambda>s. s) b' = Inr base \<and>
      params_of (\<lambda>s. s) e3' = Inr base"
    by blast
  from e1 e1' w1 e2 e2' w2 e3 e3' w3 show ?thesis by blast
qed

text \<open>
  C7. A \<^verbatim>\<open>MergeTree\<close> built without \<^verbatim>\<open>index_granularity\<close> has granularity 8192;
  built with an integer, whatever its sign, it has exactly that integer. Whether the
  constructor raises does not depend on the granularity, and once the descriptor is bound
  the granularity is the last parameter.
\<close>

theorem C7_index_granularity:
  "(\<exists>e0 mt. new_MergeTree d ks smp g None None = Inr e0 \<and> cls e0 = MergeTree mt \<and>
       index_granularity mt = (case g of None \<Rightarrow> 8192 | Some v \<Rightarrow> v)) \<and>
   (new_MergeTree d ks smp g rn rp = Inr e \<longrightarrow>
      (\<exists>mt. cls e = MergeTree mt \<and>
         index_granularity mt = (case g of None \<Rightarrow> 8192 | Some v \<Rightarrow> v)) \<and>
      (\<forall>t e'. set_parent t e = Inr e' \<longrightarrow>
         (\<exists>front. params_of esc e' =
            Inr (front @ [PInt (case g of None \<Rightarrow> 8192 | Some v \<Rightarrow> v)])))) \<and>
   ((\<exists>e. new_MergeTree d ks smp g rn rp = Inr e) \<longleftrightarrow>
    (\<exists>e. new_MergeTree d ks smp g' rn rp = Inr e))"
proof (intro conjI impI allI)
  show "\<exists>e0 mt. new_MergeTree d ks smp g None None = Inr e0 \<and> cls e0 = MergeTree mt \<and>
       index_granularity mt = (case g of None \<Rightarrow> 8192 | Some v \<Rightarrow> v)"
    by (simp add: new_MergeTree_eq new_def fresh_fields_def)
next
  assume "new_MergeTree d ks smp g rn rp = Inr e"
  then show "\<exists>mt. cls e = MergeTree mt \<and>
         index_granularity mt = (case g of None \<Rightarrow> 8192 | Some v \<Rightarrow> v)"
    by (auto simp: new_MergeTree_eq new_def fresh_fields_def split: if_splits)
next
  fix t e'
  assume e: "new_MergeTree d ks smp g rn rp = Inr e" and a: "set_parent t e = Inr e'"
  from params_nonempty_last [OF e a, of esc] obtain dc front where
    p: "params_of esc e' =
       Inr ((case (rn, rp) of
                (Some n, Some p) \<Rightarrow> if n \<noteq> [] \<and> p \<noteq> [] then [PStr (esc p), PStr (esc n)] else []
              | _ \<Rightarrow> [])
            @ PColumn dc # front @ [PInt (case g of None \<Rightarrow> 8192 | Some v \<Rightarrow> v)])"
    by blast
  show "\<exists>front. params_of esc e' =
            Inr (front @ [PInt (case g of None \<Rightarrow> 8192 | Some v \<Rightarrow> v)])"
    by (rule exI [of _ "(case (rn, rp) of
                (Some n, Some p) \<Rightarrow> if n \<noteq> [] \<and> p \<noteq> [] then [PStr (esc p), PStr (esc n)] else []
              | _ \<Rightarrow> []) @ PColumn dc # front"]) (simp add: p)
next
  show "(\<exists>e. new_MergeTree d ks smp g rn rp = Inr e) \<longleftrightarrow>
    (\<exists>e. new_MergeTree d ks smp g' rn rp = Inr e)"
    by (simp add: new_MergeTree_eq)
qed

theorem C7_index_granularity_witness:
  "(\<exists>e mt. new_MergeTree ''date'' [Name ''id''] None None None None = Inr e \<and>
      cls e = MergeTree mt \<and> index_granularity mt = 8192) \<and>
   (\<exists>e mt. new_MergeTree ''date'' [Name ''id''] None (Some 0) None None = Inr e \<and>
      cls e = MergeTree mt \<and> index_granularity mt = 0) \<and>
   (\<exists>e mt e' front. new_MergeTree ''date'' [Name ''id''] None (Some (- 5)) (Some ''r1'') (Some ''/p'') = Inr e \<and>
      cls e = MergeTree mt \<and> index_granularity mt = - 5 \<and>
      set_parent (Table ''hits'' [Column ''date'' ''Date'', Column ''id'' ''Int64'']) e = Inr e' \<and>
      params_of (\<lambda>s. s) e' = Inr (front @ [PInt (- 5)]))"
proof -
  let ?t = "Table ''hits'' [Column ''date'' ''Date'', Column ''id'' ''Int64'']"
  from C7_index_granularity [where d = "''date''" and ks = "[Name ''id'']" and smp = None
      and g = None, THEN conjunct1]
  have w1: "\<exists>e mt. new_MergeTree ''date'' [Name ''id''] None None None None = Inr e \<and>
      cls e = MergeTree mt \<and> index_granularity mt = 8192"
    by simp
  from C7_index_granularity [where d = "''date''" and ks = "[Name ''id'']" and smp = None
      and g = "Some 0", THEN conjunct1]
  have w2: "\<exists>e mt. new_MergeTree ''date'' [Name ''id''] None (Some 0) None None = Inr e \<and>
      cls e = MergeTree mt \<and> index_granularity mt = 0"
    by simp
  obtain e where e:
    "new_MergeTree ''date'' [Name ''id''] None (Some (- 5)) (Some ''r1'') (Some ''/p'') = Inr e"
    by (simp add: new_MergeTree_eq)
  have "\<exists>e'. set_parent ?t e = Inr e'"
    by (simp add: new_MergeTree_attaches [OF e])
  then obtain e' where e': "set_parent ?t e = Inr e'" by blast
  from C7_index_granularity [where esc = "\<lambda>s. s", THEN conjunct2, THEN conjunct1, rule_format, OF e]
  have "(\<exists>mt. cls e = MergeTree mt \<and> index_granularity mt = - 5) \<and>
      (\<forall>t e'. set_parent t e = Inr e' \<longrightarrow>
         (\<exists>front. params_of (\<lambda>s. s) e' = Inr (front @ [PInt (- 5)])))"
    by simp
  with e e' have w3: "\<exists>e mt e' front. new_MergeTree ''date'' [Name ''id''] None (Some (- 5)) (Some ''r1'') (Some ''/p'') = Inr e \<and>
      cls e = MergeTree mt \<and> index_granularity mt = - 5 \<and>
      set_parent ?t e = Inr e' \<and>
      params_of (\<lambda>s. s) e' = Inr (front @ [PInt (- 5)])"
    by blast
  from w1 w2 w3 show ?thesis by blast
qed

text \<open>
  C8. A call of \<^verbatim>\<open>get_params()\<close> changes no object that exists when it is called,
  whatever the store holds: the engine object, its \<^verbatim>\<open>TableCol\<close> and
  \<^verbatim>\<open>KeysExpressionOrColumn\<close> children and their lists and column collections are
  afterwards what they were, and the list the call returns is a new object. On a store
  that lays out a descriptor, a second call finds the descriptor as the first call found
  it and returns a new list with the same items as the first, which it leaves as it was;
  when the first call raises, the second raises the same exception. The items are those of
  \<open>params_of\<close>.
\<close>

theorem C8_get_params_changes_no_object:
  "(get_params_at esc a h = (r1, h1) \<longrightarrow>
      unchanged h h1 \<and> (\<forall>p. r1 = Inr p \<longrightarrow> length h \<le> p)) \<and>
   (holds_engine h a e \<and> get_params_at esc a h = (r1, h1) \<and>
    get_params_at esc a h1 = (r2, h2) \<longrightarrow>
      holds_engine h1 a e \<and> holds_engine h2 a e \<and> unchanged h1 h2 \<and>
      (case params_of esc e of
         Inl err \<Rightarrow> r1 = Inl (Raised err) \<and> r2 = Inl (Raised err)
       | Inr ps \<Rightarrow>
           \<exists>p1 p2. r1 = Inr p1 \<and> r2 = Inr p2 \<and> p1 \<noteq> p2 \<and>
             lookup h1 p1 = Some (ListObj ps) \<and>
             lookup h2 p1 = Some (ListObj ps) \<and>
             lookup h2 p2 = Some (ListObj ps)))"
proof -
  have frame: "unchanged h h1 \<and> (\<forall>p. r1 = Inr p \<longrightarrow> length h \<le> p)"
    if "get_params_at esc a h = (r1, h1)"
    using get_params_at_unchanged [of esc a h r1 h1] that by blast
  have again: "holds_engine h1 a e \<and> holds_engine h2 a e \<and> unchanged h1 h2 \<and>
      (case params_of esc e of
         Inl err \<Rightarrow> r1 = Inl (Raised err) \<and> r2 = Inl (Raised err)
       | Inr ps \<Rightarrow>
           \<exists>p1 p2. r1 = Inr p1 \<and> r2 = Inr p2 \<and> p1 \<noteq> p2 \<and>
             lookup h1 p1 = Some (ListObj ps) \<and>
             lookup h2 p1 = Some (ListObj ps) \<and>
             lookup h2 p2 = Some (ListObj ps))"
    if lay: "holds_engine h a e"
      and c1: "get_params_at esc a h = (r1, h1)"
      and c2: "get_params_at esc a h1 = (r2, h2)"
  proof -
    from get_params_at_unchanged(1) [OF c1] have u1: "unchanged h h1" .
    from get_params_at_unchanged(1) [OF c2] have u2: "unchanged h1 h2" .
    from holds_engine_unchanged [OF u1 lay] have lay1: "holds_engine h1 a e" .
    from holds_engine_unchanged [OF u2 lay1] have lay2: "holds_engine h2 a e" .
    from run_get_params_at [OF lay, of esc] c1 obtain new where
      f1: "(r1, h1) = (case params_of esc e of
          Inl err \<Rightarrow> (Inl (Raised err), h @ new)
        | Inr ps \<Rightarrow> (Inr (length h), h @ [ListObj ps]))"
      by auto
    from run_get_params_at [OF lay1, of esc] c2 obtain new' where
      f2: "(r2, h2) = (case params_of esc e of
          Inl err \<Rightarrow> (Inl (Raised err), h1 @ new')
        | Inr ps \<Rightarrow> (Inr (length h1), h1 @ [ListObj ps]))"
      by auto
    have "case params_of esc e of
           Inl err \<Rightarrow> r1 = Inl (Raised err) \<and> r2 = Inl (Raised err)
         | Inr ps \<Rightarrow>
             \<exists>p1 p2. r1 = Inr p1 \<and> r2 = Inr p2 \<and> p1 \<noteq> p2 \<and>
               lookup h1 p1 = Some (ListObj ps) \<and>
               lookup h2 p1 = Some (ListObj ps) \<and>
               lookup h2 p2 = Some (ListObj ps)"
    proof (cases "params_of esc e")
      case (Inl err)
      with f1 f2 show ?thesis by simp
    next
      case (Inr ps)
      with f1 have r1: "r1 = Inr (length h)" and h1: "h1 = h @ [ListObj ps]" by simp_all
      from Inr f2 have r2: "r2 = Inr (length h1)" and h2: "h2 = h1 @ [ListObj ps]" by simp_all
      have l1: "lookup h1 (length h) = Some (ListObj ps)"
        by (simp add: h1 lookup_def)
      from unchanged_lookup [OF u2 l1] have l2: "lookup h2 (length h) = Some (ListObj ps)" .
      have l3: "lookup h2 (length h1) = Some (ListObj ps)"
        by (simp add: h2 lookup_def)
      have "length h \<noteq> length h1" by (simp add: h1)
      with l1 l2 l3 show ?thesis using Inr r1 r2 by simp
    qed
    with lay1 lay2 u2 show ?thesis by blast
  qed
  from frame again show ?thesis by blast
qed

theorem C8_get_params_changes_no_object_witness:
  "\<exists>e0 e r1 h1 r2 h2 p1 p2.
     new_MergeTree ''date'' [Name ''id''] None None None None = Inr e0 \<and>
     set_parent (Table ''hits'' [Column ''date'' ''Date'', Column ''id'' ''Int64'']) e0 = Inr e \<and>
     holds_engine
       [ListObj [PStr ''date''], ColumnCollectionObj [Column ''date'' ''Date''],
        TableColObj 0 1,
        ListObj [PStr ''id''], ColumnCollectionObj [Column ''id'' ''Int64''],
        ListObj [PStr ''id''], KeysExpressionOrColumnObj 3 4 5,
        EngineObj (MergeTreeR \<lparr>date_col_ref = 2, key_cols_ref = 6, sampling_ref = None,
            index_granularity_val = 8192, replica_name_val = None,
            replica_table_path_val = None\<rparr>)
          (Some (Table ''hits'' [Column ''date'' ''Date'', Column ''id'' ''Int64'']))]
       7 e \<and>
     get_params_at (\<lambda>s. s) 7
       [ListObj [PStr ''date''], ColumnCollectionObj [Column ''date'' ''Date''],
        TableColObj 0 1,
        ListObj [PStr ''id''], ColumnCollectionObj [Column ''id'' ''Int64''],
        ListObj [PStr ''id''], KeysExpressionOrColumnObj 3 4 5,
        EngineObj (MergeTreeR \<lparr>date_col_ref = 2, key_cols_ref = 6, sampling_ref = None,
            index_granularity_val = 8192, replica_name_val = None,
            replica_table_path_val = None\<rparr>)
          (Some (Table ''hits'' [Column ''date'' ''Date'', Column ''id'' ''Int64'']))]
       = (r1, h1) \<and>
     get_params_at (\<lambda>s. s) 7 h1 = (r2, h2) \<and>
     unchanged h1 h2 \<and> holds_engine h2 7 e \<and>
     r1 = Inr p1 \<and> r2 = Inr p2 \<and> p1 \<noteq> p2 \<and>
     lookup h2 p1 =
       Some (ListObj [PColumn (Column ''date'' ''Date''),
                      PTuple [PColumn (Column ''id'' ''Int64'')], PInt 8192]) \<and>
     lookup h2 p2 =
       Some (ListObj [PColumn (Column ''date'' ''Date''),
                      PTuple [PColumn (Column ''id'' ''Int64'')], PInt 8192])"
proof -
  let ?t = "Table ''hits'' [Column ''date'' ''Date'', Column ''id'' ''Int64'']"
  let ?h = "[ListObj [PStr ''date''], ColumnCollectionObj [Column ''date'' ''Date''],
        TableColObj 0 1,
        ListObj [PStr ''id''], ColumnCollectionObj [Column ''id'' ''Int64''],
        ListObj [PStr ''id''], KeysExpressionOrColumnObj 3 4 5,
        EngineObj (MergeTreeR \<lparr>date_col_ref = 2, key_cols_ref = 6, sampling_ref = None,
            index_granularity_val = 8192, replica_name_val = None,
            replica_table_path_val = None\<rparr>) (Some ?t)]"
  let ?e = "\<lparr>cls = MergeTree
         \<lparr>date_col = \<lparr>pending_colargs = [''date''], columns = [Column ''date'' ''Date'']\<rparr>,
          key_cols = \<lparr>pending_colargs = [''id''], columns = [Column ''id'' ''Int64''],
                       expressions = [PStr ''id'']\<rparr>,
          sampling = None, index_granularity = 8192,
          replica_name = None, replica_table_path = None\<rparr>,
       table = Some ?t\<rparr>"
  obtain e0 where e0: "new_MergeTree ''date'' [Name ''id''] None None None None = Inr e0"
    by (simp add: new_MergeTree_eq)
  have kc: "ColumnCollectionMixin_set_parent ?t (KeysExpressionOrColumn_init [Name ''id''])
      = Inr \<lparr>pending_colargs = [''id''], columns = [Column ''id'' ''Int64''],
             expressions = [PStr ''id'']\<rparr>"
    by (simp add: ColumnCollectionMixin_set_parent_def KeysExpressionOrColumn_init_eq
        table_c_getitem_def)
  have dc: "ColumnCollectionMixin_set_parent ?t (TableCol_init ''date'')
      = Inr \<lparr>pending_colargs = [''date''], columns = [Column ''date'' ''Date'']\<rparr>"
    by (simp add: TableCol_set_parent table_c_getitem_def)
  have e: "set_parent ?t e0 = Inr ?e"
    using e0
    by (auto simp: new_MergeTree_eq set_parent_def Let_def Engine_set_parent_def new_def
        MergeTree_set_parent_def fresh_fields_def kc dc)
  have lay: "holds_engine ?h 7 ?e"
    by (simp add: holds_engine_def lookup_def holds_MergeTree_def holds_TableCol_def
        holds_Keys_def holds_Keys_option_def holds_mixin_def)
  have ps: "params_of (\<lambda>s. s) ?e =
      Inr [PColumn (Column ''date'' ''Date''), PTuple [PColumn (Column ''id'' ''Int64'')],
           PInt 8192]"
    by (simp add: params_of_def get_params_def MergeTree_get_params_def get_column_def
        get_expressions_or_columns_def)
  obtain r1 h1 where c1: "get_params_at (\<lambda>s. s) 7 ?h = (r1, h1)"
    by (cases "get_params_at (\<lambda>s. s) 7 ?h")
  obtain r2 h2 where c2: "get_params_at (\<lambda>s. s) 7 h1 = (r2, h2)"
    by (cases "get_params_at (\<lambda>s. s) 7 h1")
  from C8_get_params_changes_no_object [of "\<lambda>s. s" 7 ?h r1 h1 ?e r2 h2, THEN conjunct2,
      rule_format, OF conjI, OF lay conjI, OF c1 c2]
  have "holds_engine h2 7 ?e \<and> unchanged h1 h2 \<and>
      (\<exists>p1 p2. r1 = Inr p1 \<and> r2 = Inr p2 \<and> p1 \<noteq> p2 \<and>
         lookup h2 p1 =
           Some (ListObj [PColumn (Column ''date'' ''Date''),
                          PTuple [PColumn (Column ''id'' ''Int64'')], PInt 8192]) \<and>
         lookup h2 p2 =
           Some (ListObj [PColumn (Column ''date'' ''Date''),
                          PTuple [PColumn (Column ''id'' ''Int64'')], PInt 8192]))"
    unfolding ps by auto
  with e0 e lay c1 c2 show ?thesis by blast
qed

text \<open>
  C9. \<^verbatim>\<open>MergeTree\<close> reads the replication coordinates by truthiness. Built with
  \<^verbatim>\<open>replica_name=""\<close> and \<^verbatim>\<open>replica_table_path=""\<close>, construction succeeds and the
  descriptor is unreplicated: its name is \<^verbatim>\<open>MergeTree\<close>, before and after binding, and
  once bound its parameters start with the date column and are those of the descriptor
  built from the same arguments with no replication coordinates at all. With one of the
  two empty and the other not, construction raises.
\<close>

theorem C9_empty_strings_are_unreplicated:
  "(\<exists>e0. new_MergeTree d ks smp g (Some '''') (Some '''') = Inr e0 \<and>
      name e0 = ''MergeTree'' \<and>
      (\<forall>t e. set_parent t e0 = Inr e \<longrightarrow>
         name e = ''MergeTree'' \<and>
         (\<exists>dc rest. table_c_getitem t d = Inr dc \<and> params_of esc e = Inr (PColumn dc # rest)) \<and>
         (\<exists>b b'. new_MergeTree d ks smp g None None = Inr b \<and> set_parent t b = Inr b' \<and>
            params_of esc e = params_of esc b'))) \<and>
   (s \<noteq> [] \<longrightarrow>
      new_MergeTree d ks smp g (Some '''') (Some s) =
        Inl (Exception ''Need both or no one [replica_path, replica_name]'') \<and>
      new_MergeTree d ks smp g (Some s) (Some '''') =
        Inl (Exception ''Need both or no one [replica_path, replica_name]''))"
proof (intro conjI impI)
  let ?f = "fresh_fields d ks smp g (Some '''') (Some '''')"
  let ?u = "fresh_fields d ks smp g None None"
  have e0: "new_MergeTree d ks smp g (Some '''') (Some '''') = Inr (new (MergeTree ?f))"
    by (simp add: new_MergeTree_eq)
  have b: "new_MergeTree d ks smp g None None = Inr (new (MergeTree ?u))"
    by (simp add: new_MergeTree_eq)
  have n: "name (new (MergeTree ?f)) = ''MergeTree''"
    using new_MergeTree_name [OF e0] by simp
  have att: "name e = ''MergeTree'' \<and>
         (\<exists>dc rest. table_c_getitem t d = Inr dc \<and> params_of esc e = Inr (PColumn dc # rest)) \<and>
         (\<exists>b b'. new_MergeTree d ks smp g None None = Inr b \<and> set_parent t b = Inr b' \<and>
            params_of esc e = params_of esc b')"
    if a: "set_parent t (new (MergeTree ?f)) = Inr e" for t e
  proof -
    from a obtain mt where mt: "MergeTree_set_parent t ?f = Inr mt" and e: "cls e = MergeTree mt"
      by (auto simp: set_parent_MergeTree)
    from mt have "\<exists>m. MergeTree_set_parent t ?f = Inr m" by blast
    then have "\<exists>mt'. MergeTree_set_parent t ?u = Inr mt'"
      by (simp only: MergeTree_set_parent_succeeds)
    then obtain mt' where mt': "MergeTree_set_parent t ?u = Inr mt'" by blast
    then have b': "set_parent t (new (MergeTree ?u)) = Inr \<lparr>cls = MergeTree mt', table = Some t\<rparr>"
      by (simp add: set_parent_MergeTree)
    have ch: "date_col mt = date_col mt' \<and> key_cols mt = key_cols mt' \<and> sampling mt = sampling mt'"
      by (rule MergeTree_set_parent_children [OF mt mt']) (simp_all add: fresh_fields_def)
    have "MergeTree_get_params esc mt = MergeTree_get_params esc mt'"
      by (rule MergeTree_get_params_unreplicated)
        (simp_all add: ch MergeTree_set_parent_keeps [OF mt] MergeTree_set_parent_keeps [OF mt']
          fresh_fields_def)
    then have eq: "params_of esc e = params_of esc \<lparr>cls = MergeTree mt', table = Some t\<rparr>"
      by (simp add: params_of_def get_params_def e)
    have hd: "\<exists>dc rest. table_c_getitem t d = Inr dc \<and> params_of esc e = Inr (PColumn dc # rest)"
      by (rule unreplicated_params_head [OF e0 _ a]) simp
    from set_parent_keeps_name [OF a] n b b' eq hd show ?thesis by auto
  qed
  from e0 n att
  show "\<exists>e0. new_MergeTree d ks smp g (Some '''') (Some '''') = Inr e0 \<and>
      name e0 = ''MergeTree'' \<and>
      (\<forall>t e. set_parent t e0 = Inr e \<longrightarrow>
         name e = ''MergeTree'' \<and>
         (\<exists>dc rest. table_c_getitem t d = Inr dc \<and> params_of esc e = Inr (PColumn dc # rest)) \<and>
         (\<exists>b b'. new_MergeTree d ks smp g None None = Inr b \<and> set_parent t b = Inr b' \<and>
            params_of esc e = params_of esc b'))"
    by blast
next
  assume "s \<noteq> []"
  then show "new_MergeTree d ks smp g (Some '''') (Some s) =
        Inl (Exception ''Need both or no one [replica_path, replica_name]'')"
    by (simp add: new_MergeTree_eq)
next
  assume "s \<noteq> []"
  then show "new_MergeTree d ks smp g (Some s) (Some '''') =
        Inl (Exception ''Need both or no one [replica_path, replica_name]'')"
    by (simp add: new_MergeTree_eq)
qed

theorem C9_empty_strings_are_unreplicated_witness:
  "(\<exists>e0 e rest.
      new_MergeTree ''date'' [Name ''id''] None None (Some '''') (Some '''') = Inr e0 \<and>
      name e0 = ''MergeTree'' \<and>
      set_parent (Table ''hits'' [Column ''date'' ''Date'', Column ''id'' ''Int64'']) e0 = Inr e \<and>
      name e = ''MergeTree'' \<and>
      params_of (\<lambda>s. s) e = Inr (PColumn (Column ''date'' ''Date'') # rest)) \<and>
   new_MergeTree ''date'' [Name ''id''] None None (Some '''') (Some ''/p'') =
     Inl (Exception ''Need both or no one [replica_path, replica_name]'') \<and>
   new_MergeTree ''date'' [Name ''id''] None None (Some ''/p'') (Some '''') =
     Inl (Exception ''Need both or no one [replica_path, replica_name]'')"
proof -
  let ?t = "Table ''hits'' [Column ''date'' ''Date'', Column ''id'' ''Int64'']"
  note inst = C9_empty_strings_are_unreplicated [where d = "''date''" and ks = "[Name ''id'']"
      and smp = None and g = None and esc = "\<lambda>s. s" and s = "''/p''"]
  from inst [THEN conjunct1] obtain e0 where
    e0: "new_MergeTree ''date'' [Name ''id''] None None (Some '''') (Some '''') = Inr e0" and
    n: "name e0 = ''MergeTree''" and
    a: "\<And>t e. set_parent t e0 = Inr e \<Longrightarrow>
         name e = ''MergeTree'' \<and>
         (\<exists>dc rest. table_c_getitem t ''date'' = Inr dc \<and>
            params_of (\<lambda>s. s) e = Inr (PColumn dc # rest))"
    by blast
  have "\<exists>e. set_parent ?t e0 = Inr e"
    by (simp add: new_MergeTree_attaches [OF e0])
  then obtain e where e: "set_parent ?t e0 = Inr e" by blast
  have dc: "table_c_getitem ?t ''date'' = Inr dc \<longleftrightarrow> dc = Column ''date'' ''Date''" for dc
    by (auto simp: table_c_getitem_def)
  from a [OF e] have "name e = ''MergeTree'' \<and>
      (\<exists>rest. params_of (\<lambda>s. s) e = Inr (PColumn (Column ''date'' ''Date'') # rest))"
    unfolding dc by blast
  with e0 n e have w1: "\<exists>e0 e rest.
      new_MergeTree ''date'' [Name ''id''] None None (Some '''') (Some '''') = Inr e0 \<and>
      name e0 = ''MergeTree'' \<and>
      set_parent ?t e0 = Inr e \<and>
      name e = ''MergeTree'' \<and>
      params_of (\<lambda>s. s) e = Inr (PColumn (Column ''date'' ''Date'') # rest)"
    by blast
  have "''/p'' \<noteq> []" by simp
  with inst [THEN conjunct2] have w2:
    "new_MergeTree ''date'' [Name ''id''] None None (Some '''') (Some ''/p'') =
       Inl (Exception ''Need both or no one [replica_path, replica_name]'') \<and>
     new_MergeTree ''date'' [Name ''id''] None None (Some ''/p'') (Some '''') =
       Inl (Exception ''Need both or no one [replica_path, replica_name]'')"
    by blast
  from w1 w2 show ?thesis by blast
qed

text \<open>
  C10. The constructors of \<^verbatim>\<open>CollapsingMergeTree\<close> and \<^verbatim>\<open>SummingMergeTree\<close> take
  no replication coordinates: every object they build has \<^verbatim>\<open>replica_name\<close> and
  \<^verbatim>\<open>replica_table_path\<close> equal to \<^verbatim>\<open>None\<close>, binding leaves them so, the name is
  the bare class name, and the parameters of the bound object start with the date column,
  not with escaped strings.
\<close>

theorem C10_variants_never_replicated:
  "(new_CollapsingMergeTree d ks sc smp g = Inr e1 \<longrightarrow>
      (\<exists>mt c. cls e1 = CollapsingMergeTree mt c \<and>
         replica_name mt = None \<and> replica_table_path mt = None) \<and>
      name e1 = ''CollapsingMergeTree'' \<and>
      (\<forall>t e. set_parent t e1 = Inr e \<longrightarrow>
         (\<exists>mt c. cls e = CollapsingMergeTree mt c \<and>
            replica_name mt = None \<and> replica_table_path mt = None) \<and>
         name e = ''CollapsingMergeTree'' \<and>
         (\<exists>dc rest. table_c_getitem t d = Inr dc \<and>
            params_of esc e = Inr (PColumn dc # rest)))) \<and>
   (new_SummingMergeTree d ks cs smp g = Inr e2 \<longrightarrow>
      (\<exists>mt c. cls e2 = SummingMergeTree mt c \<and>
         replica_name mt = None \<and> replica_table_path mt = None) \<and>
      name e2 = ''SummingMergeTree'' \<and>
      (\<forall>t e. set_parent t e2 = Inr e \<longrightarrow>
         (\<exists>mt c. cls e = SummingMergeTree mt c \<and>
            replica_name mt = None \<and> replica_table_path mt = None) \<and>
         name e = ''SummingMergeTree'' \<and>
         (\<exists>dc rest. table_c_getitem t d = Inr dc \<and>
            params_of esc e = Inr (PColumn dc # rest))))"
proof (intro conjI impI allI)
  let ?f = "fresh_fields d ks smp g None None"
  {
    assume c: "new_CollapsingMergeTree d ks sc smp g = Inr e1"
    then have e1: "e1 = new (CollapsingMergeTree ?f (TableCol_init sc))"
      by (simp add: new_CollapsingMergeTree_eq)
    show "\<exists>mt c. cls e1 = CollapsingMergeTree mt c \<and>
         replica_name mt = None \<and> replica_table_path mt = None"
      by (simp add: e1 new_def fresh_fields_def)
    show n: "name e1 = ''CollapsingMergeTree''"
      by (rule new_CollapsingMergeTree_name [OF c])
    fix t e
    assume a: "set_parent t e1 = Inr e"
    then obtain mt sc' where
      mt: "MergeTree_set_parent t ?f = Inr mt" and
      sc': "ColumnCollectionMixin_set_parent t (TableCol_init sc) = Inr sc'" and
      e: "cls e = CollapsingMergeTree mt sc'"
      unfolding e1 by (auto simp: set_parent_CollapsingMergeTree)
    show "\<exists>mt c. cls e = CollapsingMergeTree mt c \<and>
            replica_name mt = None \<and> replica_table_path mt = None"
      using e MergeTree_set_parent_keeps [OF mt] by (simp add: fresh_fields_def)
    show "name e = ''CollapsingMergeTree''"
      using set_parent_keeps_name [OF a] n by simp
    from unreplicated_fields_params_head [OF mt, of esc] obtain dc rest where
      dc: "table_c_getitem t d = Inr dc" "MergeTree_get_params esc mt = Inr (PColumn dc # rest)"
      by blast
    from TableCol_attached_get_column [OF sc'] obtain c where
      "get_column sc' = Inr c" by blast
    with dc have "params_of esc e = Inr (PColumn dc # rest @ [PColumn c])"
      by (simp add: params_of_def get_params_def e)
    with dc show "\<exists>dc rest. table_c_getitem t d = Inr dc \<and>
            params_of esc e = Inr (PColumn dc # rest)"
      by blast
  next
    assume c: "new_SummingMergeTree d ks cs smp g = Inr e2"
    then have e2: "e2 = new (SummingMergeTree ?f (map_option KeysExpressionOrColumn_init cs))"
      by (simp add: new_SummingMergeTree_eq)
    show "\<exists>mt c. cls e2 = SummingMergeTree mt c \<and>
         replica_name mt = None \<and> replica_table_path mt = None"
      by (simp add: e2 new_def fresh_fields_def)
    show n: "name e2 = ''SummingMergeTree''"
      by (rule new_SummingMergeTree_name [OF c])
    fix t e
    assume a: "set_parent t e2 = Inr e"
    then obtain mt sm where
      mt: "MergeTree_set_parent t ?f = Inr mt" and
      e: "cls e = SummingMergeTree mt sm"
      unfolding e2
      by (cases cs) (auto simp: set_parent_SummingMergeTree_None set_parent_SummingMergeTree_Some)
    show "\<exists>mt c. cls e = SummingMergeTree mt c \<and>
            replica_name mt = None \<and> replica_table_path mt = None"
      using e MergeTree_set_parent_keeps [OF mt] by (simp add: fresh_fields_def)
    show "name e = ''SummingMergeTree''"
      using set_parent_keeps_name [OF a] n by simp
    from unreplicated_fields_params_head [OF mt, of esc] obtain dc rest where
      dc: "table_c_getitem t d = Inr dc" "MergeTree_get_params esc mt = Inr (PColumn dc # rest)"
      by blast
    then have "\<exists>rest'. params_of esc e = Inr (PColumn dc # rest')"
      by (cases sm) (simp_all add: params_of_def get_params_def e)
    with dc show "\<exists>dc rest. table_c_getitem t d = Inr dc \<and>
            params_of esc e = Inr (PColumn dc # rest)"
      by blast
  }
qed

theorem C10_variants_never_replicated_witness:
  "(\<exists>e1 e rest.
      new_CollapsingMergeTree ''date'' [Name ''id''] ''sign'' None None = Inr e1 \<and>
      name e1 = ''CollapsingMergeTree'' \<and>
      set_parent (Table ''hits'' [Column ''date'' ''Date'', Column ''id'' ''Int64'',
                    Column ''sign'' ''Int8'']) e1 = Inr e \<and>
      name e = ''CollapsingMergeTree'' \<and>
      params_of (\<lambda>s. s) e = Inr (PColumn (Column ''date'' ''Date'') # rest)) \<and>
   (\<exists>e2 e rest.
      new_SummingMergeTree ''date'' [Name ''id''] (Some [Name ''sign'']) None None = Inr e2 \<and>
      name e2 = ''SummingMergeTree'' \<and>
      set_parent (Table ''hits'' [Column ''date'' ''Date'', Column ''id'' ''Int64'',
                    Column ''sign'' ''Int8'']) e2 = Inr e \<and>
      name e = ''SummingMergeTree'' \<and>
      params_of (\<lambda>s. s) e = Inr (PColumn (Column ''date'' ''Date'') # rest))"
proof -
  let ?t = "Table ''hits'' [Column ''date'' ''Date'', Column ''id'' ''Int64'',
                    Column ''sign'' ''Int8'']"
  note inst = C10_variants_never_replicated [where d = "''date''" and ks = "[Name ''id'']"
      and smp = None and g = None and esc = "\<lambda>s. s" and sc = "''sign''"
      and cs = "Some [Name ''sign'']"]
  have dc: "table_c_getitem ?t ''date'' = Inr dc \<longleftrightarrow> dc = Column ''date'' ''Date''" for dc
    by (auto simp: table_c_getitem_def)
  obtain e1 where e1: "new_CollapsingMergeTree ''date'' [Name ''id''] ''sign'' None None = Inr e1"
    by (simp add: new_CollapsingMergeTree_eq)
  have "\<exists>e. set_parent ?t e1 = Inr e"
    by (simp add: new_CollapsingMergeTree_attaches [OF e1])
  then obtain e1' where e1': "set_parent ?t e1 = Inr e1'" by blast
  from inst [THEN conjunct1, rule_format, OF e1]
  have n1: "name e1 = ''CollapsingMergeTree''"
    and a1: "\<And>t e. set_parent t e1 = Inr e \<Longrightarrow>
         name e = ''CollapsingMergeTree'' \<and>
         (\<exists>dc rest. table_c_getitem t ''date'' = Inr dc \<and>
            params_of (\<lambda>s. s) e = Inr (PColumn dc # rest))"
    by blast+
  from a1 [OF e1'] have "name e1' = ''CollapsingMergeTree'' \<and>
      (\<exists>rest. params_of (\<lambda>s. s) e1' = Inr (PColumn (Column ''date'' ''Date'') # rest))"
    unfolding dc by blast
  with e1 n1 e1' have w1: "\<exists>e1 e rest.
      new_CollapsingMergeTree ''date'' [Name ''id''] ''sign'' None None = Inr e1 \<and>
      name e1 = ''CollapsingMergeTree'' \<and>
      set_parent ?t e1 = Inr e \<and>
      name e = ''CollapsingMergeTree'' \<and>
      params_of (\<lambda>s. s) e = Inr (PColumn (Column ''date'' ''Date'') # rest)"
    by blast
  obtain e2 where e2:
    "new_SummingMergeTree ''date'' [Name ''id''] (Some [Name ''sign'']) None None = Inr e2"
    by (simp add: new_SummingMergeTree_eq)
  have "\<exists>e. set_parent ?t e2 = Inr e"
    by (simp add: new_SummingMergeTree_attaches [OF e2])
  then obtain e2' where e2': "set_parent ?t e2 = Inr e2'" by blast
  from inst [THEN conjunct2, rule_format, OF e2]
  have n2: "name e2 = ''SummingMergeTree''"
    and a2: "\<And>t e. set_parent t e2 = Inr e \<Longrightarrow>
         name e = ''SummingMergeTree'' \<and>
         (\<exists>dc rest. table_c_getitem t ''date'' = Inr dc \<and>
            params_of (\<lambda>s. s) e = Inr (PColumn dc # rest))"
    by blast+
  from a2 [OF e2'] have "name e2' = ''SummingMergeTree'' \<and>
      (\<exists>rest. params_of (\<lambda>s. s) e2' = Inr (PColumn (Column ''date'' ''Date'') # rest))"
    unfolding dc by blast
  with e2 n2 e2' have w2: "\<exists>e2 e rest.
      new_SummingMergeTree ''date'' [Name ''id''] (Some [Name ''sign'']) None None = Inr e2 \<and>
      name e2 = ''SummingMergeTree'' \<and>
      set_parent ?t e2 = Inr e \<and>
      name e = ''SummingMergeTree'' \<and>
      params_of (\<lambda>s. s) e = Inr (PColumn (Column ''date'' ''Date'') # rest)"
    by blast
  from w1 w2 show ?thesis by blast
qed

end
